theory Spec2Isabelle
  imports Complex_Main
begin

section \<open>Strings\<close>

text \<open>
  JavaScript strings are modelled as \<^typ>\<open>string\<close>, for ASCII text: the labels, the
  crop names and the file references of the repository. \<open>toLowerCase\<close> maps the ASCII
  capital letters and leaves every other character as it is, and white space is the ASCII
  white space.
\<close>

definition toLowerChar :: "char \<Rightarrow> char" where
  "toLowerChar c =
     (case map_of (zip ''ABCDEFGHIJKLMNOPQRSTUVWXYZ'' ''abcdefghijklmnopqrstuvwxyz'') c of
        Some d \<Rightarrow> d
      | None \<Rightarrow> c)"

definition toLowerCase :: "string \<Rightarrow> string" where
  "toLowerCase s = map toLowerChar s"

fun startsWith :: "string \<Rightarrow> string \<Rightarrow> bool" where
  "startsWith [] s = True"
| "startsWith (p # ps) [] = False"
| "startsWith (p # ps) (c # cs) = (p = c \<and> startsWith ps cs)"

text \<open>\<open>includes_str s sub\<close> is \<open>s.includes(sub)\<close>.\<close>

fun includes_str :: "string \<Rightarrow> string \<Rightarrow> bool" where
  "includes_str [] sub = (sub = [])"
| "includes_str (c # cs) sub = (startsWith sub (c # cs) \<or> includes_str cs sub)"

text \<open>\<open>splitFirst sep s\<close> is \<open>s.split(sep)[0]\<close> for a non-empty separator.\<close>

fun splitFirst :: "string \<Rightarrow> string \<Rightarrow> string" where
  "splitFirst sep [] = []"
| "splitFirst sep (c # cs) =
     (if startsWith sep (c # cs) then [] else c # splitFirst sep cs)"

text \<open>\<open>s.trim() === ''\<close>: every character of \<open>s\<close> is (ASCII) white space.\<close>

definition isSpace :: "char \<Rightarrow> bool" where
  "isSpace c = (c \<in> set [CHR 0x09, CHR 0x0A, CHR 0x0B, CHR 0x0C, CHR 0x0D, CHR '' ''])"

definition trimIsEmpty :: "string \<Rightarrow> bool" where
  "trimIsEmpty s = list_all isSpace s"


section \<open>Label mapper (utils/diseaseMapping.ts)\<close>

datatype CropType = CASHEW | CASSAVA | MAIZE | TOMATO

text \<open>The string value of each member of the \<open>CropType\<close> constant object (types/api.ts).\<close>

fun cropTypeValue :: "CropType \<Rightarrow> string" where
  "cropTypeValue CASHEW = ''cashew''"
| "cropTypeValue CASSAVA = ''cassava''"
| "cropTypeValue MAIZE = ''maize''"
| "cropTypeValue TOMATO = ''tomato''"

record DiseaseMapping =
  localLabel :: string
  backendDiseaseName :: string
  cropType :: CropType
  isHealthy :: bool

definition mk :: "string \<Rightarrow> string \<Rightarrow> CropType \<Rightarrow> bool \<Rightarrow> DiseaseMapping" where
  "mk l b c h = \<lparr>localLabel = l, backendDiseaseName = b, cropType = c, isHealthy = h\<rparr>"

definition DISEASE_MAPPINGS :: "DiseaseMapping list" where
  "DISEASE_MAPPINGS =
   [ mk ''Cashew - Anthracnose'' ''anthracnose'' CASHEW False,
     mk ''Cashew - Gumosis'' ''gumosis'' CASHEW False,
     mk ''Cashew - Healthy'' ''healthy'' CASHEW True,
     mk ''Cashew - Leaf Miner'' ''leaf_miner'' CASHEW False,
     mk ''Cashew - Red Rust'' ''red_rust'' CASHEW False,
     mk ''Cassava - Bacterial Blight'' ''bacterial_blight'' CASSAVA False,
     mk ''Cassava - Brown Spot'' ''brown_spot'' CASSAVA False,
     mk ''Cassava - Green Mite'' ''green_mite'' CASSAVA False,
     mk ''Cassava - Healthy'' ''healthy'' CASSAVA True,
     mk ''Cassava - Mosaic'' ''mosaic'' CASSAVA False,
     mk ''Maize - Fall Armyworm'' ''fall_armyworm'' MAIZE False,
     mk ''Maize - Grasshopper'' ''grasshopper'' MAIZE False,
     mk ''Maize - Healthy'' ''healthy'' MAIZE True,
     mk ''Maize - Leaf Beetle'' ''leaf_beetle'' MAIZE False,
     mk ''Maize - Leaf Blight'' ''leaf_blight'' MAIZE False,
     mk ''Maize - Leaf Spot'' ''leaf_spot'' MAIZE False,
     mk ''Maize - Streak Virus'' ''streak_virus'' MAIZE False,
     mk ''Tomato - Healthy'' ''healthy'' TOMATO True,
     mk ''Tomato - Leaf Blight'' ''leaf_blight'' TOMATO False,
     mk ''Tomato - Leaf Curl'' ''leaf_curl'' TOMATO False,
     mk ''Tomato - Septoria Leaf Spot'' ''septoria_leaf_spot'' TOMATO False,
     mk ''Tomato - Verticillium Wilt'' ''verticillium_wilt'' TOMATO False ]"

text \<open>
  The two lookup maps are filled by one \<open>forEach\<close> over the table; \<open>Map.set\<close> overwrites,
  so the last record with a given key is the one that stays.
\<close>

definition localToBackendMapOf :: "DiseaseMapping list \<Rightarrow> (string \<rightharpoonup> DiseaseMapping)" where
  "localToBackendMapOf tbl = fold (\<lambda>m acc. acc(localLabel m \<mapsto> m)) tbl Map.empty"

definition backendToLocalMapOf :: "DiseaseMapping list \<Rightarrow> (string \<rightharpoonup> DiseaseMapping)" where
  "backendToLocalMapOf tbl = fold (\<lambda>m acc. acc(backendDiseaseName m \<mapsto> m)) tbl Map.empty"

definition localToBackendMap :: "string \<rightharpoonup> DiseaseMapping" where
  "localToBackendMap = localToBackendMapOf DISEASE_MAPPINGS"

definition backendToLocalMap :: "string \<rightharpoonup> DiseaseMapping" where
  "backendToLocalMap = backendToLocalMapOf DISEASE_MAPPINGS"

text \<open>\<open>map.get(k) || null\<close>: a record is an object, hence truthy; \<open>None\<close> is \<open>null\<close>.\<close>

definition mapLocalToBackend :: "string \<Rightarrow> DiseaseMapping option" where
  "mapLocalToBackend l = localToBackendMap l"

definition mapBackendToLocal :: "string \<Rightarrow> DiseaseMapping option" where
  "mapBackendToLocal b = backendToLocalMap b"

text \<open>\<open>mapping?.isHealthy || false\<close>.\<close>

definition isHealthyPrediction :: "string \<Rightarrow> bool" where
  "isHealthyPrediction l =
     (case mapLocalToBackend l of None \<Rightarrow> False | Some m \<Rightarrow> isHealthy m)"

record validation =
  valid :: bool
  errors :: "string list"

text \<open>
  The body of the \<open>forEach\<close> of \<open>validateMappings\<close>: the state is the error list and the
  two sets of keys seen so far.
\<close>

definition cropMismatch :: "DiseaseMapping \<Rightarrow> bool" where
  "cropMismatch m =
     (let expectedCrop = toLowerCase (splitFirst '' - '' (localLabel m));
          actualCrop = toLowerCase (cropTypeValue (cropType m))
      in \<not> includes_str expectedCrop actualCrop \<and> \<not> includes_str actualCrop expectedCrop)"

definition validateStep ::
  "DiseaseMapping \<Rightarrow> string list \<times> string set \<times> string set
     \<Rightarrow> string list \<times> string set \<times> string set" where
  "validateStep m st =
     (case st of (errs, localLabels, backendNames) \<Rightarrow>
        let errs1 = (if localLabel m \<in> localLabels
                     then errs @ [''Duplicate local label: '' @ localLabel m] else errs);
            localLabels1 = insert (localLabel m) localLabels;
            errs2 = (if backendDiseaseName m \<in> backendNames
                     then errs1 @ [''Duplicate backend name: '' @ backendDiseaseName m]
                     else errs1);
            backendNames1 = insert (backendDiseaseName m) backendNames;
            expectedCrop = toLowerCase (splitFirst '' - '' (localLabel m));
            actualCrop = toLowerCase (cropTypeValue (cropType m));
            errs3 = (if cropMismatch m
                     then errs2 @ [''Crop type mismatch for '' @ localLabel m @ '': expected ''
                                     @ expectedCrop @ '', got '' @ actualCrop]
                     else errs2)
        in (errs3, localLabels1, backendNames1))"

definition validateMappingsOf :: "DiseaseMapping list \<Rightarrow> validation" where
  "validateMappingsOf tbl =
     (let errs = fst (fold validateStep tbl ([], {}, {}))
      in \<lparr>valid = (length errs = 0), errors = errs\<rparr>)"

definition validateMappings :: validation where
  "validateMappings = validateMappingsOf DISEASE_MAPPINGS"

text \<open>
  \<open>validateModelCoverage\<close> (scripts/validateMapping.ts). The label table
  \<open>readableLabels\<close> (constants/labels.ts) is not among the sources; it is a parameter.
\<close>

definition validateModelCoverageOf :: "string list \<Rightarrow> DiseaseMapping list \<Rightarrow> validation" where
  "validateModelCoverageOf readableLabels tbl =
     (let mappedLabels = set (map localLabel tbl);
          errs1 = map (\<lambda>l. ''Missing mapping for model label: '' @ l)
                    (filter (\<lambda>l. l \<notin> mappedLabels) readableLabels);
          errs2 = map (\<lambda>m. ''Mapping exists for non-existent model label: '' @ localLabel m)
                    (filter (\<lambda>m. localLabel m \<notin> set readableLabels) tbl)
      in \<lparr>valid = (length (errs1 @ errs2) = 0), errors = errs1 @ errs2\<rparr>)"


section \<open>Numeric runtime\<close>

text \<open>
  A tensor is a handle (\<open>tid\<close>) with a shape and its values in row-major order. Values are
  exact reals: rounding to 32-bit floats and the non-finite values are outside the model.
  The world keeps the handles that are still live, so that every tensor an operation
  creates and every \<open>dispose\<close> is visible, and a trace of the platform calls and timers.
\<close>

record 'a tensor =
  tid :: nat
  tshape :: "nat list"
  tdata :: "'a list"

datatype event = Sleep nat | ManipulateAsync | ReadAsStringAsync

record world =
  nextId :: nat
  live :: "nat list"
  trace :: "event list"

definition world0 :: world where
  "world0 = \<lparr>nextId = 0, live = [], trace = []\<rparr>"

definition alloc :: "nat list \<Rightarrow> 'a list \<Rightarrow> world \<Rightarrow> 'a tensor \<times> world" where
  "alloc sh d w =
     (\<lparr>tid = nextId w, tshape = sh, tdata = d\<rparr>,
      w\<lparr>nextId := nextId w + 1, live := live w @ [nextId w]\<rparr>)"

text \<open>\<open>t.dispose()\<close>; disposing a tensor that is already disposed does nothing.\<close>

definition dispose :: "'a tensor \<Rightarrow> world \<Rightarrow> world" where
  "dispose t w = w\<lparr>live := removeAll (tid t) (live w)\<rparr>"

definition emit :: "event \<Rightarrow> world \<Rightarrow> world" where
  "emit ev w = w\<lparr>trace := trace w @ [ev]\<rparr>"

text \<open>\<open>xs[i]\<close> on a JavaScript array: \<open>None\<close> is \<open>undefined\<close>.\<close>

definition nth_opt :: "'a list \<Rightarrow> nat \<Rightarrow> 'a option" where
  "nth_opt xs i = (if i < length xs then Some (xs ! i) else None)"

datatype exn =
    EmptyUri
  | NoBase64
  | InvalidDecodedShape "nat list"
  | ReadFailed exn
  | InvalidTensorShape "nat list"
  | AllMethodsFailed exn
  | InsufficientOutputClasses nat
  | LibraryError string

text \<open>
  The platform and library calls the pipeline makes, as parameters:
  \<open>manipulateAsync p uri n\<close> is the outcome of call number \<open>n\<close> of
  \<open>ImageManipulator.manipulateAsync\<close> on \<open>uri\<close> (it throws, or returns an object whose
  \<open>base64\<close> may be missing); \<open>atob\<close> gives the decoded bytes (the loop copying the char
  codes into a \<open>Uint8Array\<close> keeps them as they are); \<open>decodeJpeg\<close> gives the shape and the
  values of the pixel tensor; \<open>resizeBilinearData\<close> gives the interpolated values of
  \<open>tf.image.resizeBilinear\<close>.
\<close>

record platform =
  manipulateAsync :: "string \<Rightarrow> nat \<Rightarrow> exn + string option"
  readAsStringAsync :: "string \<Rightarrow> exn + string"
  atob :: "string \<Rightarrow> exn + nat list"
  decodeJpeg :: "nat list \<Rightarrow> exn + nat list \<times> real list"
  resizeBilinearData :: "nat list \<Rightarrow> real list \<Rightarrow> real list"

text \<open>TensorFlow.js operations. Each returns a new tensor.\<close>

definition expandDims0 :: "'a tensor \<Rightarrow> world \<Rightarrow> 'a tensor \<times> world" where
  "expandDims0 t w = alloc (1 # tshape t) (tdata t) w"

definition divScalar :: "real \<Rightarrow> real tensor \<Rightarrow> world \<Rightarrow> real tensor \<times> world" where
  "divScalar c t w = alloc (tshape t) (map (\<lambda>v. v / c) (tdata t)) w"

definition squeeze :: "'a tensor \<Rightarrow> world \<Rightarrow> 'a tensor \<times> world" where
  "squeeze t w = alloc (filter (\<lambda>d. d \<noteq> 1) (tshape t)) (tdata t) w"

text \<open>\<open>tf.image.resizeBilinear(t, [224, 224])\<close> takes a rank 3 or rank 4 tensor.\<close>

definition resizeBilinear :: "platform \<Rightarrow> real tensor \<Rightarrow> world \<Rightarrow> (exn + real tensor) \<times> world" where
  "resizeBilinear p t w =
     (case tshape t of
        [h, wd, c] \<Rightarrow>
          (case alloc [224, 224, c] (resizeBilinearData p (tshape t) (tdata t)) w of
             (r, w1) \<Rightarrow> (Inr r, w1))
      | [b, h, wd, c] \<Rightarrow>
          (case alloc [b, 224, 224, c] (resizeBilinearData p (tshape t) (tdata t)) w of
             (r, w1) \<Rightarrow> (Inr r, w1))
      | _ \<Rightarrow> (Inl (LibraryError ''Error in resizeBilinear: x must be rank 3 or 4''), w))"

text \<open>
  \<open>argMax\<close> of one row, as the kernel computes it: the maximum starts at the first value
  and moves only to a strictly greater one, so the first occurrence of the maximum wins.
\<close>

fun argMaxLoop :: "'a::linorder \<Rightarrow> nat \<Rightarrow> nat \<Rightarrow> 'a list \<Rightarrow> nat" where
  "argMaxLoop mx maxIndex j [] = maxIndex"
| "argMaxLoop mx maxIndex j (v # vs) =
     (if v > mx then argMaxLoop v j (j + 1) vs else argMaxLoop mx maxIndex (j + 1) vs)"

definition argMaxRow :: "'a::linorder list \<Rightarrow> nat" where
  "argMaxRow xs = (case xs of [] \<Rightarrow> 0 | x # _ \<Rightarrow> argMaxLoop x 0 0 xs)"

text \<open>
  \<open>t.argMax(-1)\<close>: the last axis is reduced, one index for each row of \<open>last (tshape t)\<close>
  consecutive values. A scalar has no axis \<open>-1\<close>.
\<close>

definition argMaxLast :: "'a::linorder tensor \<Rightarrow> world \<Rightarrow> (exn + nat tensor) \<times> world" where
  "argMaxLast t w =
     (if tshape t = [] then (Inl (LibraryError ''argMax: axis out of range''), w)
      else
        (let k = last (tshape t);
             rows = prod_list (butlast (tshape t))
         in case alloc (butlast (tshape t))
                   (map (\<lambda>r. argMaxRow (take k (drop (r * k) (tdata t)))) [0..<rows]) w of
              (r, w1) \<Rightarrow> (Inr r, w1)))"


section \<open>Image normalizer (services/imageToTensor.ts)\<close>

text \<open>
  From the decoded pixel tensor to the result on the direct-read path: resize if the first
  two dimensions are not 224 and 224, validate, add the batch dimension, divide by 255.
\<close>

definition normalizeAlternative ::
  "platform \<Rightarrow> nat list \<Rightarrow> real list \<Rightarrow> world \<Rightarrow> (exn + real tensor) \<times> world" where
  "normalizeAlternative p sh d w =
     (case alloc sh d w of (imageTensor, w1) \<Rightarrow>
        (case (if nth_opt (tshape imageTensor) 0 \<noteq> Some 224
                  \<or> nth_opt (tshape imageTensor) 1 \<noteq> Some 224
               then (case resizeBilinear p imageTensor w1 of
                       (Inl e, w2) \<Rightarrow> (Inl e, w2)
                     | (Inr r, w2) \<Rightarrow> (Inr r, dispose imageTensor w2))
               else (Inr imageTensor, w1)) of
           (Inl e, w3) \<Rightarrow> (Inl e, w3)
         | (Inr resizedTensor, w3) \<Rightarrow>
             if length (tshape resizedTensor) \<noteq> 3 \<or> nth_opt (tshape resizedTensor) 2 \<noteq> Some 3
             then (Inl (InvalidTensorShape (tshape resizedTensor)), dispose resizedTensor w3)
             else (case expandDims0 resizedTensor w3 of (expanded, w4) \<Rightarrow>
                    (case divScalar 255 expanded w4 of (preprocessed, w5) \<Rightarrow>
                       (Inr preprocessed, dispose resizedTensor w5)))))"

definition alternativeBody :: "platform \<Rightarrow> string \<Rightarrow> world \<Rightarrow> (exn + real tensor) \<times> world" where
  "alternativeBody p uri w =
     (let w0 = emit ReadAsStringAsync w in
      case readAsStringAsync p uri of
        Inl fsError \<Rightarrow> (Inl (ReadFailed fsError), w0)
      | Inr base64Data \<Rightarrow>
          (case atob p base64Data of
             Inl e \<Rightarrow> (Inl e, w0)
           | Inr rawBytes \<Rightarrow>
               (case decodeJpeg p rawBytes of
                  Inl e \<Rightarrow> (Inl e, w0)
                | Inr (sh, d) \<Rightarrow> normalizeAlternative p sh d w0)))"

text \<open>The \<open>catch\<close> of \<open>processImageAlternative\<close> wraps whatever was thrown.\<close>

definition processImageAlternative ::
  "platform \<Rightarrow> string \<Rightarrow> world \<Rightarrow> (exn + real tensor) \<times> world" where
  "processImageAlternative p uri w =
     (case alternativeBody p uri w of
        (Inl e, w1) \<Rightarrow> (Inl (AllMethodsFailed e), w1)
      | (Inr t, w1) \<Rightarrow> (Inr t, w1))"

definition maxRetries :: nat where
  "maxRetries = 3"

text \<open>
  The retry loop: it ends with the resized image (\<open>break\<close>), with the decision to use the
  direct-read path, or, were the loop condition to fail, with nothing.
\<close>

datatype manipOutcome = Resized "string option" | FallBack | NoResult

function retryLoop :: "platform \<Rightarrow> string \<Rightarrow> nat \<Rightarrow> world \<Rightarrow> manipOutcome \<times> world" where
  "retryLoop p uri retryCount w =
     (if retryCount < maxRetries then
        (case manipulateAsync p uri retryCount of
           Inr resized \<Rightarrow> (Resized resized, emit ManipulateAsync w)
         | Inl manipulatorError \<Rightarrow>
             (if retryCount + 1 \<ge> maxRetries then (FallBack, emit ManipulateAsync w)
              else retryLoop p uri (retryCount + 1)
                     (emit (Sleep (200 * (retryCount + 1))) (emit ManipulateAsync w))))
      else (NoResult, w))"
  by pat_completeness auto
termination
  by (relation "measure (\<lambda>(p, uri, retryCount, w). maxRetries - retryCount)") auto

text \<open>From the decoded pixel tensor to the result on the primary path.\<close>

definition normalizePrimary :: "nat list \<Rightarrow> real list \<Rightarrow> world \<Rightarrow> (exn + real tensor) \<times> world" where
  "normalizePrimary sh d w =
     (case alloc sh d w of (imageTensor, w1) \<Rightarrow>
        if length (tshape imageTensor) \<noteq> 3 \<or> nth_opt (tshape imageTensor) 2 \<noteq> Some 3
        then (Inl (InvalidDecodedShape (tshape imageTensor)), dispose imageTensor w1)
        else (case expandDims0 imageTensor w1 of (expanded, w2) \<Rightarrow>
               (case divScalar 255 expanded w2 of (preprocessed, w3) \<Rightarrow>
                  (Inr preprocessed, dispose imageTensor w3))))"

text \<open>The \<open>catch\<close> of \<open>imageToTensor\<close> logs and throws the same error again.\<close>

definition imageToTensor :: "platform \<Rightarrow> string \<Rightarrow> world \<Rightarrow> (exn + real tensor) \<times> world" where
  "imageToTensor p uri w =
     (if uri = [] \<or> trimIsEmpty uri then (Inl EmptyUri, w)
      else if includes_str uri ''files/crop_image_'' \<or> includes_str uri ''files/gallery_image_''
      then processImageAlternative p uri w
      else
        (case retryLoop p uri 0 (if includes_str uri ''Camera/'' then emit (Sleep 100) w else w) of
           (FallBack, w1) \<Rightarrow> processImageAlternative p uri w1
         | (NoResult, w1) \<Rightarrow> (Inl NoBase64, w1)
         | (Resized None, w1) \<Rightarrow> (Inl NoBase64, w1)
         | (Resized (Some base64), w1) \<Rightarrow>
             if base64 = [] then (Inl NoBase64, w1)
             else (case atob p base64 of
                     Inl e \<Rightarrow> (Inl e, w1)
                   | Inr rawBytes \<Rightarrow>
                       (case decodeJpeg p rawBytes of
                          Inl e \<Rightarrow> (Inl e, w1)
                        | Inr (sh, d) \<Rightarrow> normalizePrimary sh d w1))))"


section \<open>Inference engine (services/predictImage.ts)\<close>

record topPrediction =
  top_label :: "string option"
  top_confidence :: real
  top_classIndex :: nat

text \<open>
  \<open>classIndex\<close>, \<open>confidence\<close> and \<open>label\<close> are read from arrays by index, so each of them
  can be \<open>undefined\<close> (\<open>None\<close>).
\<close>

record PredictionResult =
  label :: "string option"
  confidence :: "real option"
  classIndex :: "nat option"
  allScores :: "real list"
  topPredictions :: "topPrediction list"

text \<open>
  The loaded model: the declared input and output tensors (a missing list, and a missing
  shape, are \<open>None\<close>; a dimension that is not declared is \<open>None\<close>) and the forward pass,
  which throws or gives the shape and the values of the output tensor.
\<close>

record tensorInfo =
  shape :: "nat option list option"

record graphModel =
  inputs :: "tensorInfo list option"
  outputs :: "tensorInfo list option"
  predict :: "real tensor \<Rightarrow> exn + nat list \<times> real list"

text \<open>
  Score reconciliation (the inner \<open>try\<close> block, whose \<open>catch\<close> throws the same error
  again): the result is the tensor \<open>processedPrediction\<close> and the array \<open>scores\<close>.
\<close>

definition reconcile ::
  "real tensor \<Rightarrow> world \<Rightarrow> (exn + real tensor \<times> real list) \<times> world" where
  "reconcile prediction w =
     (if length (tdata prediction) = 22 then (Inr (prediction, tdata prediction), w)
      else
        (case (if length (tshape prediction) > 1
               then (case squeeze prediction w of (sq, w1) \<Rightarrow> (sq, tdata sq, w1))
               else (prediction, tdata prediction, w)) of
           (processedPrediction, scores, w2) \<Rightarrow>
             if length scores > 22 then (Inr (processedPrediction, take 22 scores), w2)
             else if length scores < 22
             then (Inl (InsufficientOutputClasses (length scores)), w2)
             else (Inr (processedPrediction, scores), w2)))"

text \<open>
  The body of the outer \<open>try\<close>. \<open>readableLabels\<close> (constants/labels.ts) is not among the
  sources; it is a parameter.
\<close>

definition predictImageBody ::
  "platform \<Rightarrow> string list \<Rightarrow> string \<Rightarrow> graphModel \<Rightarrow> world \<Rightarrow> (exn + PredictionResult) \<times> world" where
  "predictImageBody p readableLabels uri mdl w =
     (case imageToTensor p uri w of
        (Inl e, w1) \<Rightarrow> (Inl e, w1)
      | (Inr tensor, w1) \<Rightarrow>
          (case predict mdl tensor of
             Inl e \<Rightarrow> (Inl e, w1)
           | Inr (psh, pd) \<Rightarrow>
               (case alloc psh pd w1 of (prediction, w2) \<Rightarrow>
                  (case reconcile prediction w2 of
                     (Inl e, w3) \<Rightarrow> (Inl e, w3)
                   | (Inr (processedPrediction, scores), w3) \<Rightarrow>
                       (case argMaxLast processedPrediction w3 of
                          (Inl e, w4) \<Rightarrow> (Inl e, w4)
                        | (Inr indices, w4) \<Rightarrow>
                            (let ci = nth_opt (tdata indices) 0;
                                 conf = (case ci of None \<Rightarrow> None | Some i \<Rightarrow> nth_opt scores i);
                                 lbl = (case ci of None \<Rightarrow> None
                                        | Some i \<Rightarrow> nth_opt readableLabels i);
                                 scoresArray = scores;
                                 tops = take 3
                                   (sort_key (\<lambda>t. - top_confidence t)
                                      (map (\<lambda>(score, index).
                                              \<lparr>top_label = nth_opt readableLabels index,
                                               top_confidence = score,
                                               top_classIndex = index\<rparr>)
                                           (zip scoresArray [0..<length scoresArray])));
                                 w5 = dispose tensor w4;
                                 w6 = dispose prediction w5;
                                 w7 = (if tid processedPrediction \<noteq> tid prediction
                                       then dispose processedPrediction w6 else w6)
                             in (Inr \<lparr>label = lbl, confidence = conf, classIndex = ci,
                                      allScores = scoresArray, topPredictions = tops\<rparr>,
                                 w7)))))))"

text \<open>
  \<open>predictImage\<close>: \<open>None\<close> for the model is \<open>null\<close>; the result \<open>Inr None\<close> is the
  returned \<open>null\<close>, \<open>Inl\<close> would be an error thrown to the caller.
\<close>

definition predictImage ::
  "platform \<Rightarrow> string list \<Rightarrow> string \<Rightarrow> graphModel option \<Rightarrow> world
     \<Rightarrow> (exn + PredictionResult option) \<times> world" where
  "predictImage p readableLabels uri mdl w =
     (case mdl of
        None \<Rightarrow> (Inr None, w)
      | Some m \<Rightarrow>
          (case predictImageBody p readableLabels uri m w of
             (Inl e, w1) \<Rightarrow> (Inr None, w1)
           | (Inr result, w1) \<Rightarrow> (Inr (Some result), w1)))"


section \<open>Model loader and validator (utils/modelUtils.ts, hooks/useTfModel.ts)\<close>

text \<open>
  \<open>ModelValidator.validateModel\<close>. The checks that only log a warning have no effect on
  the result.
\<close>

definition validateModel :: "graphModel \<Rightarrow> bool" where
  "validateModel mdl =
     (case inputs mdl of
        None \<Rightarrow> False
      | Some [] \<Rightarrow> False
      | Some (input0 # _) \<Rightarrow>
          (case outputs mdl of
             None \<Rightarrow> False
           | Some [] \<Rightarrow> False
           | Some (output0 # _) \<Rightarrow>
               (case shape output0 of
                  None \<Rightarrow> True
                | Some outputShape \<Rightarrow>
                    if length outputShape < 1 then False
                    else (case last outputShape of None \<Rightarrow> True | Some classesDim \<Rightarrow> True))))"

text \<open>
  \<open>ModelValidator.testModelPrediction\<close>, on the random input \<open>noise\<close>. An error thrown
  by the forward pass is caught and the test returns \<open>true\<close>. Every value of the model is a
  real, so the test for \<open>NaN\<close> and infinite values always passes here.
\<close>

definition testModelPrediction :: "real list \<Rightarrow> graphModel \<Rightarrow> world \<Rightarrow> bool \<times> world" where
  "testModelPrediction noise mdl w =
     (case alloc [1, 224, 224, 3] noise w of (dummyInput, w1) \<Rightarrow>
        (case predict mdl dummyInput of
           Inl e \<Rightarrow> (True, w1)
         | Inr (psh, pd) \<Rightarrow>
             (case alloc psh pd w1 of (prediction, w2) \<Rightarrow>
                (case (if length (tshape prediction) > 2
                       then (case squeeze prediction w2 of (sq, w3) \<Rightarrow> (sq, tdata sq, w3))
                       else (prediction, tdata prediction, w2)) of
                   (processedPrediction, output0, w3) \<Rightarrow>
                     (let output = (if length output0 > 22 then take 22 output0 else output0);
                          w4 = dispose dummyInput w3;
                          w5 = dispose prediction w4;
                          w6 = (if tid processedPrediction \<noteq> tid prediction
                                then dispose processedPrediction w5 else w5)
                      in if length output < 22 then (False, w6) else (True, w6))))))"

text \<open>What a step of \<open>load\<close> can throw: an \<open>Error\<close> object with its message, or another value.\<close>

datatype thrown = ErrorObject string | OtherValue

record loaderEnv =
  tfReady :: "thrown option"
  requireAssets :: "thrown option"
  loadGraphModel :: "thrown + graphModel"
  randomNormal :: "real list"

text \<open>The state of the hook \<open>useTfModel\<close>.\<close>

record hookState =
  model :: "graphModel option"
  ready :: bool
  error :: "string option"
  loadingProgress :: string

definition initialState :: hookState where
  "initialState = \<lparr>model = None, ready = False, error = None, loadingProgress = ''Initializing...''\<rparr>"

text \<open>The \<open>catch\<close> of \<open>load\<close>.\<close>

definition loadFailed :: "thrown \<Rightarrow> hookState \<Rightarrow> hookState" where
  "loadFailed err st =
     st\<lparr>error := Some (case err of ErrorObject msg \<Rightarrow> msg
                        | OtherValue \<Rightarrow> ''Unknown error loading model''),
        ready := False,
        loadingProgress := ''Failed''\<rparr>"

definition load :: "loaderEnv \<Rightarrow> hookState \<Rightarrow> world \<Rightarrow> hookState \<times> world" where
  "load env st w =
     (case tfReady env of
        Some err \<Rightarrow> (loadFailed err (st\<lparr>loadingProgress := ''Initializing TensorFlow.js...''\<rparr>), w)
      | None \<Rightarrow>
          (case requireAssets env of
             Some err \<Rightarrow> (loadFailed err (st\<lparr>loadingProgress := ''Loading model files...''\<rparr>), w)
           | None \<Rightarrow>
               (case loadGraphModel env of
                  Inl err \<Rightarrow> (loadFailed err (st\<lparr>loadingProgress := ''Assembling model...''\<rparr>), w)
                | Inr loadedModel \<Rightarrow>
                    if \<not> validateModel loadedModel
                    then (loadFailed (ErrorObject ''Model validation failed'')
                            (st\<lparr>loadingProgress := ''Validating model...''\<rparr>), w)
                    else (case testModelPrediction (randomNormal env) loadedModel w of
                            (testPassed, w1) \<Rightarrow>
                              (st\<lparr>loadingProgress := ''Testing model...'',
                                  model := Some loadedModel,
                                  ready := True,
                                  error := None,
                                  loadingProgress := ''Ready''\<rparr>, w1)))))"


section \<open>Concrete environments\<close>

text \<open>
  A platform on which the primary path succeeds at the first attempt: the resized JPEG,
  and the file itself, decode to a black 224 x 224 image.
\<close>

definition blackImagePlatform :: platform where
  "blackImagePlatform =
     \<lparr>manipulateAsync = (\<lambda>uri n. Inr (Some ''/9j/4AAQ'')),
      readAsStringAsync = (\<lambda>uri. Inr ''/9j/4AAQ''),
      atob = (\<lambda>s. Inr [255, 216, 255, 224]),
      decodeJpeg = (\<lambda>bytes. Inr ([224, 224, 3], replicate 150528 0)),
      resizeBilinearData = (\<lambda>sh d. d)\<rparr>"

text \<open>A platform on which the file of the photo reference does not exist.\<close>

definition missingFilePlatform :: platform where
  "missingFilePlatform =
     \<lparr>manipulateAsync = (\<lambda>uri n. Inl (LibraryError ''File does not exist'')),
      readAsStringAsync = (\<lambda>uri. Inl (LibraryError ''File does not exist'')),
      atob = (\<lambda>s. Inl (LibraryError ''Invalid base64'')),
      decodeJpeg = (\<lambda>bytes. Inl (LibraryError ''Not a JPEG'')),
      resizeBilinearData = (\<lambda>sh d. d)\<rparr>"

text \<open>
  A platform whose file is an image of one row with a black and a white pixel. Its
  \<open>resizeBilinearData\<close> is the bilinear interpolation of that image to 224 x 224: every
  row is the same, and column \<open>x\<close> has the value \<open>255 * min x 112 / 112\<close> in each channel.
\<close>

definition twoPixelPlatform :: platform where
  "twoPixelPlatform =
     \<lparr>manipulateAsync = (\<lambda>uri n. Inl (LibraryError ''Could not resize'')),
      readAsStringAsync = (\<lambda>uri. Inr ''/9j/4AAQ''),
      atob = (\<lambda>s. Inr [255, 216, 255, 224]),
      decodeJpeg = (\<lambda>bytes. Inr ([1, 2, 3], [0, 0, 0, 255, 255, 255])),
      resizeBilinearData =
        (\<lambda>sh d. concat (replicate 224
                  (concat (map (\<lambda>x. replicate 3 (255 * real (min x 112) / 112)) [0..<224]))))\<rparr>"

definition twoPixelResult :: "real list" where
  "twoPixelResult =
     concat (replicate 224 (concat (map (\<lambda>x. replicate 3 (real (min x 112) / 112)) [0..<224])))"

text \<open>A platform whose images decode to one channel only (224 x 224, black).\<close>

definition grayPlatform :: platform where
  "grayPlatform =
     \<lparr>manipulateAsync = (\<lambda>uri n. Inr (Some ''/9j/4AAQ'')),
      readAsStringAsync = (\<lambda>uri. Inr ''/9j/4AAQ''),
      atob = (\<lambda>s. Inr [255, 216, 255, 224]),
      decodeJpeg = (\<lambda>bytes. Inr ([224, 224, 1], replicate 50176 0)),
      resizeBilinearData = (\<lambda>sh d. d)\<rparr>"

text \<open>
  A platform whose \<open>manipulateAsync\<close> returns an object without \<open>base64\<close>; the file
  itself can be read and decodes to a black 224 x 224 image.
\<close>

definition noBase64Platform :: platform where
  "noBase64Platform =
     \<lparr>manipulateAsync = (\<lambda>uri n. Inr None),
      readAsStringAsync = (\<lambda>uri. Inr ''/9j/4AAQ''),
      atob = (\<lambda>s. Inr [255, 216, 255, 224]),
      decodeJpeg = (\<lambda>bytes. Inr ([224, 224, 3], replicate 150528 0)),
      resizeBilinearData = (\<lambda>sh d. d)\<rparr>"

text \<open>
  A platform whose \<open>manipulateAsync\<close> always throws; the file can be read and decodes
  to a black 224 x 224 image.
\<close>

definition directReadPlatform :: platform where
  "directReadPlatform =
     \<lparr>manipulateAsync = (\<lambda>uri n. Inl (LibraryError ''Could not resize'')),
      readAsStringAsync = (\<lambda>uri. Inr ''/9j/4AAQ''),
      atob = (\<lambda>s. Inr [255, 216, 255, 224]),
      decodeJpeg = (\<lambda>bytes. Inr ([224, 224, 3], replicate 150528 0)),
      resizeBilinearData = (\<lambda>sh d. d)\<rparr>"

text \<open>A platform whose \<open>manipulateAsync\<close> throws at the first call only.\<close>

definition flakyPlatform :: platform where
  "flakyPlatform =
     \<lparr>manipulateAsync =
        (\<lambda>uri n. if n = 0 then Inl (LibraryError ''File is not ready'')
                  else Inr (Some ''/9j/4AAQ'')),
      readAsStringAsync = (\<lambda>uri. Inr ''/9j/4AAQ''),
      atob = (\<lambda>s. Inr [255, 216, 255, 224]),
      decodeJpeg = (\<lambda>bytes. Inr ([224, 224, 3], replicate 150528 0)),
      resizeBilinearData = (\<lambda>sh d. d)\<rparr>"

text \<open>A model whose forward pass gives the same output tensor for every input.\<close>

definition constantModel :: "nat list \<Rightarrow> real list \<Rightarrow> graphModel" where
  "constantModel sh d =
     \<lparr>inputs = Some [\<lparr>shape = Some [None, Some 224, Some 224, Some 3]\<rparr>],
      outputs = Some [\<lparr>shape = Some [None, Some 22]\<rparr>],
      predict = (\<lambda>t. Inr (sh, d))\<rparr>"

definition throwingModel :: graphModel where
  "throwingModel =
     \<lparr>inputs = Some [\<lparr>shape = Some [None, Some 224, Some 224, Some 3]\<rparr>],
      outputs = Some [\<lparr>shape = Some [None, Some 22]\<rparr>],
      predict = (\<lambda>t. Inl (LibraryError ''Error in forward pass''))\<rparr>"

definition noOutputsModel :: graphModel where
  "noOutputsModel =
     \<lparr>inputs = Some [\<lparr>shape = Some [None, Some 224, Some 224, Some 3]\<rparr>],
      outputs = Some [],
      predict = (\<lambda>t. Inl (LibraryError ''Error in forward pass''))\<rparr>"

text \<open>A loader environment in which only the assembly of the model can fail.\<close>

definition loaderEnvOf :: "thrown + graphModel \<Rightarrow> loaderEnv" where
  "loaderEnvOf r =
     \<lparr>tfReady = None, requireAssets = None, loadGraphModel = r,
      randomNormal = replicate 150528 0\<rparr>"

text \<open>
  Thirty scores: among the first 22 the maximum is at index 5, and a greater value is
  at index 25.
\<close>

definition scores30 :: "real list" where
  "scores30 =
     [0.01, 0.01, 0.01, 0.01, 0.01, 0.6, 0.01, 0.01, 0.01, 0.01,
      0.01, 0.01, 0.01, 0.01, 0.01, 0.01, 0.01, 0.01, 0.01, 0.01,
      0.01, 0.01, 0.01, 0.01, 0.01, 0.9, 0.01, 0.01, 0.01, 0.01]"


section \<open>Label mapper: lookups\<close>

lemma fold_upd_notin:
  "l \<notin> k ` set tbl \<Longrightarrow> fold (\<lambda>m acc. acc(k m \<mapsto> m)) tbl acc l = acc l"
  by (induction tbl arbitrary: acc) auto

lemma fold_upd_in:
  "distinct (map k tbl) \<Longrightarrow> m \<in> set tbl \<Longrightarrow>
     fold (\<lambda>m acc. acc(k m \<mapsto> m)) tbl acc (k m) = Some m"
proof (induction tbl arbitrary: acc)
  case Nil
  then show ?case by simp
next
  case (Cons a tbl)
  show ?case
  proof (cases "m = a")
    case True
    with Cons.prems have "k a \<notin> k ` set tbl" by simp
    from fold_upd_notin[OF this, of "acc(k a \<mapsto> a)"]
    have "fold (\<lambda>m acc. acc(k m \<mapsto> m)) tbl (acc(k a \<mapsto> a)) (k a) = Some a"
      by (simp only: fun_upd_same)
    then show ?thesis unfolding True by (simp only: fold_Cons o_apply)
  next
    case False
    with Cons show ?thesis by simp
  qed
qed

lemma distinct_localLabels: "distinct (map localLabel DISEASE_MAPPINGS)"
  by (simp add: DISEASE_MAPPINGS_def mk_def)

lemma mapLocalToBackend_unmapped:
  assumes "l \<notin> localLabel ` set DISEASE_MAPPINGS"
  shows "mapLocalToBackend l = None"
  unfolding mapLocalToBackend_def localToBackendMap_def localToBackendMapOf_def
  by (simp only: fold_upd_notin[OF assms])

lemma mapLocalToBackend_mapped:
  "m \<in> set DISEASE_MAPPINGS \<Longrightarrow> mapLocalToBackend (localLabel m) = Some m"
  unfolding mapLocalToBackend_def localToBackendMap_def localToBackendMapOf_def
  by (rule fold_upd_in[OF distinct_localLabels])

text \<open>
  C5. A label with no record in the table is never reported healthy, and for the label
  of a record of the table \<open>isHealthyPrediction\<close> is the \<open>isHealthy\<close> flag of that record.
\<close>

theorem isHealthyPrediction_spec:
  "(l \<notin> localLabel ` set DISEASE_MAPPINGS \<longrightarrow> isHealthyPrediction l = False) \<and>
   (\<forall>m\<in>set DISEASE_MAPPINGS.
      mapLocalToBackend (localLabel m) = Some m \<and>
      isHealthyPrediction (localLabel m) = isHealthy m)"
  by (simp add: isHealthyPrediction_def mapLocalToBackend_unmapped mapLocalToBackend_mapped)

theorem isHealthyPrediction_spec_witness:
  "''Mango - Healthy'' \<notin> localLabel ` set DISEASE_MAPPINGS \<and>
   isHealthyPrediction ''Mango - Healthy'' = False \<and>
   mk ''Cashew - Healthy'' ''healthy'' CASHEW True \<in> set DISEASE_MAPPINGS \<and>
   isHealthyPrediction ''Cashew - Healthy'' = True \<and>
   isHealthyPrediction ''Cashew - Gumosis'' = False"
  using isHealthyPrediction_spec[of "''Mango - Healthy''"]
  by (simp add: DISEASE_MAPPINGS_def mk_def)

section \<open>Label mapper: validation\<close>

lemma fold_validateStep:
  "fold validateStep tbl (errs, L, B) = (errs', L', B') \<Longrightarrow>
     L' = L \<union> localLabel ` set tbl \<and> B' = B \<union> backendDiseaseName ` set tbl \<and>
     (errs' = [] \<longleftrightarrow>
        errs = [] \<and> distinct (map localLabel tbl) \<and> localLabel ` set tbl \<inter> L = {} \<and>
        distinct (map backendDiseaseName tbl) \<and> backendDiseaseName ` set tbl \<inter> B = {} \<and>
        (\<forall>m\<in>set tbl. \<not> cropMismatch m))"
proof (induction tbl arbitrary: errs L B)
  case Nil
  then show ?case by simp
next
  case (Cons a tbl)
  obtain e1 L1 B1 where st: "validateStep a (errs, L, B) = (e1, L1, B1)"
    by (cases "validateStep a (errs, L, B)") auto
  from st have L1: "L1 = insert (localLabel a) L"
    and B1: "B1 = insert (backendDiseaseName a) B"
    and e1: "e1 = [] \<longleftrightarrow>
               errs = [] \<and> localLabel a \<notin> L \<and> backendDiseaseName a \<notin> B \<and> \<not> cropMismatch a"
    by (auto simp: validateStep_def Let_def split: if_splits)
  from Cons.prems st have "fold validateStep tbl (e1, L1, B1) = (errs', L', B')" by simp
  from Cons.IH[OF this] show ?case unfolding L1 B1 e1 by auto
qed

lemma validateMappingsOf_valid:
  "valid (validateMappingsOf tbl) \<longleftrightarrow>
     distinct (map localLabel tbl) \<and> distinct (map backendDiseaseName tbl) \<and>
     (\<forall>m\<in>set tbl. \<not> cropMismatch m)"
proof -
  obtain e L B where f: "fold validateStep tbl ([], {}, {}) = (e, L, B)"
    by (cases "fold validateStep tbl ([], {}, {})") auto
  from fold_validateStep[OF f]
  have "e = [] \<longleftrightarrow> distinct (map localLabel tbl) \<and> distinct (map backendDiseaseName tbl) \<and>
      (\<forall>m\<in>set tbl. \<not> cropMismatch m)" by simp
  then show ?thesis by (simp add: validateMappingsOf_def f)
qed

lemma validateStep_errors:
  "validateStep a (errs, L, B) = (e1, L1, B1) \<Longrightarrow>
     set errs \<subseteq> set e1 \<and> L1 = insert (localLabel a) L \<and> B1 = insert (backendDiseaseName a) B \<and>
     (localLabel a \<in> L \<longrightarrow> (''Duplicate local label: '' @ localLabel a) \<in> set e1) \<and>
     (backendDiseaseName a \<in> B \<longrightarrow>
        (''Duplicate backend name: '' @ backendDiseaseName a) \<in> set e1) \<and>
     (cropMismatch a \<longrightarrow>
        (''Crop type mismatch for '' @ localLabel a @ '': expected ''
           @ toLowerCase (splitFirst '' - '' (localLabel a)) @ '', got ''
           @ toLowerCase (cropTypeValue (cropType a))) \<in> set e1)"
  by (auto simp: validateStep_def Let_def split: if_splits)

lemma fold_validateStep_errors:
  "fold validateStep tbl (errs, L, B) = (errs', L', B') \<Longrightarrow>
     set errs \<subseteq> set errs' \<and>
     (\<forall>m\<in>set tbl. cropMismatch m \<longrightarrow>
        (''Crop type mismatch for '' @ localLabel m @ '': expected ''
           @ toLowerCase (splitFirst '' - '' (localLabel m)) @ '', got ''
           @ toLowerCase (cropTypeValue (cropType m))) \<in> set errs') \<and>
     (\<forall>l. (l \<in> L \<and> l \<in> localLabel ` set tbl) \<or> 2 \<le> count_list (map localLabel tbl) l \<longrightarrow>
        (''Duplicate local label: '' @ l) \<in> set errs') \<and>
     (\<forall>b. (b \<in> B \<and> b \<in> backendDiseaseName ` set tbl)
            \<or> 2 \<le> count_list (map backendDiseaseName tbl) b \<longrightarrow>
        (''Duplicate backend name: '' @ b) \<in> set errs')"
proof (induction tbl arbitrary: errs L B)
  case Nil
  then show ?case by simp
next
  case (Cons a tbl)
  obtain e1 L1 B1 where st: "validateStep a (errs, L, B) = (e1, L1, B1)"
    by (cases "validateStep a (errs, L, B)") auto
  note s = validateStep_errors[OF st]
  from Cons.prems st have f: "fold validateStep tbl (e1, L1, B1) = (errs', L', B')" by simp
  note ih = Cons.IH[OF f]
  from ih have sub: "set e1 \<subseteq> set errs'" by blast
  have c1: "count_list (map localLabel tbl) l \<ge> 1 \<Longrightarrow> l \<in> localLabel ` set tbl" for l
    by (metis count_list_0_iff image_set not_one_le_zero)
  have c2: "count_list (map backendDiseaseName tbl) b \<ge> 1 \<Longrightarrow> b \<in> backendDiseaseName ` set tbl" for b
    by (metis count_list_0_iff image_set not_one_le_zero)
  have A: "set errs \<subseteq> set errs'" using s sub by blast
  have M: "\<forall>m\<in>set (a # tbl). cropMismatch m \<longrightarrow>
        (''Crop type mismatch for '' @ localLabel m @ '': expected ''
           @ toLowerCase (splitFirst '' - '' (localLabel m)) @ '', got ''
           @ toLowerCase (cropTypeValue (cropType m))) \<in> set errs'"
    using s sub ih by auto
  have Lb: "\<forall>l. (l \<in> L \<and> l \<in> localLabel ` set (a # tbl))
              \<or> 2 \<le> count_list (map localLabel (a # tbl)) l \<longrightarrow>
        (''Duplicate local label: '' @ l) \<in> set errs'"
  proof (intro allI impI)
    fix l
    assume h: "(l \<in> L \<and> l \<in> localLabel ` set (a # tbl))
                 \<or> 2 \<le> count_list (map localLabel (a # tbl)) l"
    show "(''Duplicate local label: '' @ l) \<in> set errs'"
    proof (cases "l = localLabel a")
      case True
      from h show ?thesis
      proof
        assume "l \<in> L \<and> l \<in> localLabel ` set (a # tbl)"
        then show ?thesis using s sub True by auto
      next
        assume "2 \<le> count_list (map localLabel (a # tbl)) l"
        then have "1 \<le> count_list (map localLabel tbl) l" using True by simp
        then have "l \<in> localLabel ` set tbl" by (rule c1)
        moreover have "l \<in> L1" using s True by simp
        ultimately show ?thesis using ih by blast
      qed
    next
      case False
      from h have "(l \<in> L1 \<and> l \<in> localLabel ` set tbl) \<or> 2 \<le> count_list (map localLabel tbl) l"
        using False s by auto
      then show ?thesis using ih by blast
    qed
  qed
  have Bb: "\<forall>b. (b \<in> B \<and> b \<in> backendDiseaseName ` set (a # tbl))
              \<or> 2 \<le> count_list (map backendDiseaseName (a # tbl)) b \<longrightarrow>
        (''Duplicate backend name: '' @ b) \<in> set errs'"
  proof (intro allI impI)
    fix b
    assume h: "(b \<in> B \<and> b \<in> backendDiseaseName ` set (a # tbl))
                 \<or> 2 \<le> count_list (map backendDiseaseName (a # tbl)) b"
    show "(''Duplicate backend name: '' @ b) \<in> set errs'"
    proof (cases "b = backendDiseaseName a")
      case True
      from h show ?thesis
      proof
        assume "b \<in> B \<and> b \<in> backendDiseaseName ` set (a # tbl)"
        then show ?thesis using s sub True by auto
      next
        assume "2 \<le> count_list (map backendDiseaseName (a # tbl)) b"
        then have "1 \<le> count_list (map backendDiseaseName tbl) b" using True by simp
        then have "b \<in> backendDiseaseName ` set tbl" by (rule c2)
        moreover have "b \<in> B1" using s True by simp
        ultimately show ?thesis using ih by blast
      qed
    next
      case False
      from h have "(b \<in> B1 \<and> b \<in> backendDiseaseName ` set tbl)
                     \<or> 2 \<le> count_list (map backendDiseaseName tbl) b"
        using False s by auto
      then show ?thesis using ih by blast
    qed
  qed
  from A M Lb Bb show ?case by blast
qed

lemma validateMappingsOf_errors:
  "(\<forall>m\<in>set tbl. cropMismatch m \<longrightarrow>
        (''Crop type mismatch for '' @ localLabel m @ '': expected ''
           @ toLowerCase (splitFirst '' - '' (localLabel m)) @ '', got ''
           @ toLowerCase (cropTypeValue (cropType m))) \<in> set (errors (validateMappingsOf tbl))) \<and>
   (\<forall>l. 2 \<le> count_list (map localLabel tbl) l \<longrightarrow>
        (''Duplicate local label: '' @ l) \<in> set (errors (validateMappingsOf tbl))) \<and>
   (\<forall>b. 2 \<le> count_list (map backendDiseaseName tbl) b \<longrightarrow>
        (''Duplicate backend name: '' @ b) \<in> set (errors (validateMappingsOf tbl)))"
proof -
  obtain e L B where f: "fold validateStep tbl ([], {}, {}) = (e, L, B)"
    by (cases "fold validateStep tbl ([], {}, {})") auto
  have "errors (validateMappingsOf tbl) = e" by (simp add: validateMappingsOf_def f)
  with fold_validateStep_errors[OF f] show ?thesis by simp
qed

text \<open>
  C6, as the code has it. \<open>validateMappings\<close> accepts a table exactly when no local label
  and no backend name occurs twice and no record has a crop mismatch; it does not look at
  the label table. Coverage is the work of \<open>validateModelCoverage\<close>, which accepts exactly
  when the labels of the table and the model labels are the same set, and which names
  every model label without a record in an error. Each violation has its error string:
  a record without a model label, a crop mismatch, a local label or a backend name that
  occurs twice.
\<close>

theorem validate_checks:
  "valid (validateMappingsOf tbl) = (errors (validateMappingsOf tbl) = []) \<and>
   (valid (validateMappingsOf tbl) \<longleftrightarrow>
      distinct (map localLabel tbl) \<and> distinct (map backendDiseaseName tbl) \<and>
      (\<forall>m\<in>set tbl. \<not> cropMismatch m)) \<and>
   valid (validateModelCoverageOf readableLabels tbl)
     = (errors (validateModelCoverageOf readableLabels tbl) = []) \<and>
   (valid (validateModelCoverageOf readableLabels tbl) \<longleftrightarrow>
      set readableLabels = localLabel ` set tbl) \<and>
   (l \<in> set readableLabels \<and> l \<notin> localLabel ` set tbl \<longrightarrow>
      \<not> valid (validateModelCoverageOf readableLabels tbl) \<and>
      (''Missing mapping for model label: '' @ l)
         \<in> set (errors (validateModelCoverageOf readableLabels tbl))) \<and>
   (\<forall>m\<in>set tbl. localLabel m \<notin> set readableLabels \<longrightarrow>
      (''Mapping exists for non-existent model label: '' @ localLabel m)
         \<in> set (errors (validateModelCoverageOf readableLabels tbl))) \<and>
   (\<forall>m\<in>set tbl. cropMismatch m \<longrightarrow>
      (''Crop type mismatch for '' @ localLabel m @ '': expected ''
         @ toLowerCase (splitFirst '' - '' (localLabel m)) @ '', got ''
         @ toLowerCase (cropTypeValue (cropType m))) \<in> set (errors (validateMappingsOf tbl))) \<and>
   (\<forall>k. 2 \<le> count_list (map localLabel tbl) k \<longrightarrow>
      (''Duplicate local label: '' @ k) \<in> set (errors (validateMappingsOf tbl))) \<and>
   (\<forall>k. 2 \<le> count_list (map backendDiseaseName tbl) k \<longrightarrow>
      (''Duplicate backend name: '' @ k) \<in> set (errors (validateMappingsOf tbl)))"
proof -
  have o: "\<forall>m\<in>set tbl. localLabel m \<notin> set readableLabels \<longrightarrow>
      (''Mapping exists for non-existent model label: '' @ localLabel m)
         \<in> set (errors (validateModelCoverageOf readableLabels tbl))"
    by (auto simp: validateModelCoverageOf_def Let_def)
  note v = validateMappingsOf_errors[of tbl]
  have b: "valid (validateMappingsOf tbl) = (errors (validateMappingsOf tbl) = [])"
    by (simp add: validateMappingsOf_def Let_def)
  have c: "valid (validateModelCoverageOf readableLabels tbl) \<longleftrightarrow>
      set readableLabels = localLabel ` set tbl"
    by (auto simp: validateModelCoverageOf_def Let_def filter_empty_conv)
  have c': "valid (validateModelCoverageOf readableLabels tbl)
     = (errors (validateModelCoverageOf readableLabels tbl) = [])"
    by (simp add: validateModelCoverageOf_def Let_def)
  have d: "l \<in> set readableLabels \<and> l \<notin> localLabel ` set tbl \<longrightarrow>
      \<not> valid (validateModelCoverageOf readableLabels tbl) \<and>
      (''Missing mapping for model label: '' @ l)
         \<in> set (errors (validateModelCoverageOf readableLabels tbl))"
    by (auto simp: validateModelCoverageOf_def Let_def filter_empty_conv)
  from validateMappingsOf_valid[of tbl] b c c' d
  have "valid (validateMappingsOf tbl) = (errors (validateMappingsOf tbl) = []) \<and>
   (valid (validateMappingsOf tbl) \<longleftrightarrow>
      distinct (map localLabel tbl) \<and> distinct (map backendDiseaseName tbl) \<and>
      (\<forall>m\<in>set tbl. \<not> cropMismatch m)) \<and>
   valid (validateModelCoverageOf readableLabels tbl)
     = (errors (validateModelCoverageOf readableLabels tbl) = []) \<and>
   (valid (validateModelCoverageOf readableLabels tbl) \<longleftrightarrow>
      set readableLabels = localLabel ` set tbl) \<and>
   (l \<in> set readableLabels \<and> l \<notin> localLabel ` set tbl \<longrightarrow>
      \<not> valid (validateModelCoverageOf readableLabels tbl) \<and>
      (''Missing mapping for model label: '' @ l)
         \<in> set (errors (validateModelCoverageOf readableLabels tbl)))"
    by blast
  with o v show ?thesis by (elim conjE) (intro conjI, assumption+)
qed

theorem validate_checks_witness:
  "valid (validateMappingsOf [mk ''Cashew - Anthracnose'' ''anthracnose'' CASHEW False]) \<and>
   \<not> cropMismatch (mk ''Cashew - Anthracnose'' ''anthracnose'' CASHEW False) \<and>
   ''Cashew - Healthy'' \<in> set [''Cashew - Anthracnose'', ''Cashew - Healthy''] \<and>
   ''Cashew - Healthy'' \<notin> localLabel ` set [mk ''Cashew - Anthracnose'' ''anthracnose'' CASHEW False] \<and>
   \<not> valid (validateModelCoverageOf [''Cashew - Anthracnose'', ''Cashew - Healthy'']
              [mk ''Cashew - Anthracnose'' ''anthracnose'' CASHEW False]) \<and>
   ''Missing mapping for model label: Cashew - Healthy''
      \<in> set (errors (validateModelCoverageOf [''Cashew - Anthracnose'', ''Cashew - Healthy'']
                       [mk ''Cashew - Anthracnose'' ''anthracnose'' CASHEW False])) \<and>
   cropMismatch (mk ''Maize - Healthy'' ''healthy'' TOMATO True) \<and>
   ''Crop type mismatch for Maize - Healthy: expected maize, got tomato''
      \<in> set (errors (validateMappingsOf [mk ''Cashew - Healthy'' ''healthy'' CASHEW True,
                                           mk ''Maize - Healthy'' ''healthy'' TOMATO True])) \<and>
   ''Duplicate backend name: healthy''
      \<in> set (errors (validateMappingsOf [mk ''Cashew - Healthy'' ''healthy'' CASHEW True,
                                           mk ''Maize - Healthy'' ''healthy'' TOMATO True])) \<and>
   ''Mapping exists for non-existent model label: Maize - Healthy''
      \<in> set (errors (validateModelCoverageOf [''Cashew - Anthracnose'', ''Cashew - Healthy'']
                       [mk ''Cashew - Healthy'' ''healthy'' CASHEW True,
                        mk ''Maize - Healthy'' ''healthy'' TOMATO True]))"
proof -
  let ?t2 = "[mk ''Cashew - Healthy'' ''healthy'' CASHEW True,
              mk ''Maize - Healthy'' ''healthy'' TOMATO True]"
  let ?mz = "mk ''Maize - Healthy'' ''healthy'' TOMATO True"
  have mm: "cropMismatch ?mz"
    by (simp add: mk_def cropMismatch_def toLowerCase_def toLowerChar_def)
  have mzin: "?mz \<in> set ?t2" by simp
  have cnt: "2 \<le> count_list (map backendDiseaseName ?t2) ''healthy''" by (simp add: mk_def)
  have orph: "localLabel ?mz \<notin> set [''Cashew - Anthracnose'', ''Cashew - Healthy'']"
    by (simp add: mk_def)
  note w2 = validate_checks[of ?t2 "[''Cashew - Anthracnose'', ''Cashew - Healthy'']"
      "''Cashew - Healthy''"]
  have s1: "''Crop type mismatch for '' @ localLabel ?mz @ '': expected ''
         @ toLowerCase (splitFirst '' - '' (localLabel ?mz)) @ '', got ''
         @ toLowerCase (cropTypeValue (cropType ?mz))
       = ''Crop type mismatch for Maize - Healthy: expected maize, got tomato''"
    by (simp add: mk_def toLowerCase_def toLowerChar_def)
  have s2: "''Duplicate backend name: '' @ ''healthy'' = ''Duplicate backend name: healthy''"
    by simp
  have s3: "''Mapping exists for non-existent model label: '' @ localLabel ?mz
       = ''Mapping exists for non-existent model label: Maize - Healthy''"
    by (simp add: mk_def)
  from w2 mm mzin
  have e1: "(''Crop type mismatch for '' @ localLabel ?mz @ '': expected ''
         @ toLowerCase (splitFirst '' - '' (localLabel ?mz)) @ '', got ''
         @ toLowerCase (cropTypeValue (cropType ?mz))) \<in> set (errors (validateMappingsOf ?t2))"
    by blast
  from w2 cnt
  have e2: "(''Duplicate backend name: '' @ ''healthy'') \<in> set (errors (validateMappingsOf ?t2))"
    by blast
  from w2 orph mzin
  have e3: "(''Mapping exists for non-existent model label: '' @ localLabel ?mz)
         \<in> set (errors (validateModelCoverageOf [''Cashew - Anthracnose'', ''Cashew - Healthy'']
                          ?t2))"
    by blast
  note e1' = e1[unfolded s1] and e2' = e2[unfolded s2] and e3' = e3[unfolded s3]
  let ?tbl = "[mk ''Cashew - Anthracnose'' ''anthracnose'' CASHEW False]"
  let ?labels = "[''Cashew - Anthracnose'', ''Cashew - Healthy'']"
  have m: "\<not> cropMismatch (mk ''Cashew - Anthracnose'' ''anthracnose'' CASHEW False)"
    by (simp add: mk_def cropMismatch_def toLowerCase_def toLowerChar_def)
  then have h1: "distinct (map localLabel ?tbl) \<and> distinct (map backendDiseaseName ?tbl) \<and>
      (\<forall>m\<in>set ?tbl. \<not> cropMismatch m)"
    by simp
  have h2: "''Cashew - Healthy'' \<in> set ?labels \<and> ''Cashew - Healthy'' \<notin> localLabel ` set ?tbl"
    by (simp add: mk_def)
  have s: "''Missing mapping for model label: '' @ ''Cashew - Healthy''
             = ''Missing mapping for model label: Cashew - Healthy''"
    by simp
  from validate_checks[of ?tbl ?labels "''Cashew - Healthy''"] h1 h2 m
  have "valid (validateMappingsOf ?tbl) \<and>
   \<not> valid (validateModelCoverageOf ?labels ?tbl) \<and>
   (''Missing mapping for model label: '' @ ''Cashew - Healthy'')
      \<in> set (errors (validateModelCoverageOf ?labels ?tbl))"
    by blast
  with m h2 mm e1' e2' e3' show ?thesis unfolding s by blast
qed

text \<open>
  C6 as stated fails: \<open>validateMappings\<close> accepts, with no error, a table that has no
  record for the model label \<open>Cashew - Healthy\<close>.
\<close>

theorem validateMappings_ignores_coverage:
  "validateMappingsOf [mk ''Cashew - Anthracnose'' ''anthracnose'' CASHEW False]
     = \<lparr>valid = True, errors = []\<rparr> \<and>
   ''Cashew - Healthy'' \<in> set [''Cashew - Anthracnose'', ''Cashew - Healthy''] \<and>
   ''Cashew - Healthy''
      \<notin> localLabel ` set [mk ''Cashew - Anthracnose'' ''anthracnose'' CASHEW False]"
  by (simp add: validateMappingsOf_def validateStep_def cropMismatch_def mk_def
      toLowerCase_def toLowerChar_def)


lemma validateMappings_rejects_table:
  "\<not> valid validateMappings \<and> ''Duplicate backend name: healthy'' \<in> set (errors validateMappings)"
proof -
  have c: "2 \<le> count_list (map backendDiseaseName DISEASE_MAPPINGS) ''healthy''"
    by (simp add: DISEASE_MAPPINGS_def mk_def)
  have n: "\<not> distinct (map backendDiseaseName DISEASE_MAPPINGS)"
    by (simp add: DISEASE_MAPPINGS_def mk_def)
  from validateMappingsOf_errors[of DISEASE_MAPPINGS] c
  have "(''Duplicate backend name: '' @ ''healthy'') \<in> set (errors validateMappings)"
    unfolding validateMappings_def by blast
  then show ?thesis using n validateMappingsOf_valid[of DISEASE_MAPPINGS]
    by (simp add: validateMappings_def)
qed

text \<open>
  C1. The round trip does not return the local label of the record of
  \<open>Cashew - Healthy\<close>: four records share the backend name \<open>healthy\<close>, the index by
  backend name keeps the last of them, and the round trip gives \<open>Tomato - Healthy\<close>.
  The table's own validator rejects the table.
\<close>

theorem roundTrip_Cashew_Healthy:
  "mk ''Cashew - Healthy'' ''healthy'' CASHEW True \<in> set DISEASE_MAPPINGS \<and>
   mapLocalToBackend ''Cashew - Healthy'' = Some (mk ''Cashew - Healthy'' ''healthy'' CASHEW True) \<and>
   mapBackendToLocal ''healthy'' = Some (mk ''Tomato - Healthy'' ''healthy'' TOMATO True) \<and>
   map_option localLabel
     (Option.bind (mapLocalToBackend ''Cashew - Healthy'')
        (\<lambda>m. mapBackendToLocal (backendDiseaseName m))) = Some ''Tomato - Healthy'' \<and>
   \<not> valid validateMappings \<and>
   ''Duplicate backend name: healthy'' \<in> set (errors validateMappings)"
proof -
  have "mk ''Cashew - Healthy'' ''healthy'' CASHEW True \<in> set DISEASE_MAPPINGS \<and>
   mapLocalToBackend ''Cashew - Healthy'' = Some (mk ''Cashew - Healthy'' ''healthy'' CASHEW True) \<and>
   mapBackendToLocal ''healthy'' = Some (mk ''Tomato - Healthy'' ''healthy'' TOMATO True) \<and>
   map_option localLabel
     (Option.bind (mapLocalToBackend ''Cashew - Healthy'')
        (\<lambda>m. mapBackendToLocal (backendDiseaseName m))) = Some ''Tomato - Healthy''"
    by (simp add: mapLocalToBackend_def localToBackendMap_def localToBackendMapOf_def
        mapBackendToLocal_def backendToLocalMap_def backendToLocalMapOf_def
        DISEASE_MAPPINGS_def mk_def)
  with validateMappings_rejects_table show ?thesis
    by (elim conjE) (intro conjI, assumption+)
qed



section \<open>Image normalizer: the retry loop and the two paths\<close>

declare retryLoop.simps [simp del]


lemma retryLoop_all_fail:
  assumes "\<And>n. n < 3 \<Longrightarrow> \<exists>e. manipulateAsync p uri n = Inl e"
  shows "retryLoop p uri 0 w =
     (FallBack, w\<lparr>trace := trace w @ [ManipulateAsync, Sleep 200, ManipulateAsync, Sleep 400,
                                       ManipulateAsync]\<rparr>)"
proof -
  obtain e0 e1 e2 where e: "manipulateAsync p uri 0 = Inl e0"
    "manipulateAsync p uri (Suc 0) = Inl e1" "manipulateAsync p uri (Suc (Suc 0)) = Inl e2"
    using assms[of 0] assms[of "Suc 0"] assms[of "Suc (Suc 0)"] by auto
  have s2: "retryLoop p uri (Suc (Suc 0)) w' = (FallBack, emit ManipulateAsync w')" for w'
    by (subst retryLoop.simps) (simp add: e maxRetries_def)
  have s1: "retryLoop p uri (Suc 0) w' =
      retryLoop p uri (Suc (Suc 0)) (emit (Sleep 400) (emit ManipulateAsync w'))" for w'
    by (subst retryLoop.simps) (simp add: e maxRetries_def)
  have s0: "retryLoop p uri 0 w' =
      retryLoop p uri (Suc 0) (emit (Sleep 200) (emit ManipulateAsync w'))" for w'
    by (subst retryLoop.simps) (simp add: e maxRetries_def)
  show ?thesis by (simp add: s0 s1 s2 emit_def)
qed

lemma retryLoop_trace:
  "\<exists>evs. trace (snd (retryLoop p uri n w)) = trace w @ evs \<and>
         length (filter (\<lambda>e. e = ManipulateAsync) evs) \<le> 3 - n \<and>
         ReadAsStringAsync \<notin> set evs \<and>
         live (snd (retryLoop p uri n w)) = live w \<and> nextId (snd (retryLoop p uri n w)) = nextId w"
proof (induction p uri n w rule: retryLoop.induct)
  case (1 p uri retryCount w)
  show ?case
  proof (cases "retryCount < maxRetries")
    case False
    then show ?thesis by (subst (1 2 3) retryLoop.simps) simp
  next
    case lt: True
    show ?thesis
    proof (cases "manipulateAsync p uri retryCount")
      case (Inr r)
      have "retryLoop p uri retryCount w = (Resized r, emit ManipulateAsync w)"
        by (subst retryLoop.simps) (simp add: lt Inr)
      then show ?thesis using lt by (simp add: emit_def maxRetries_def)
    next
      case (Inl e)
      show ?thesis
      proof (cases "retryCount + 1 \<ge> maxRetries")
        case True
        have "retryLoop p uri retryCount w = (FallBack, emit ManipulateAsync w)"
          using True by (subst retryLoop.simps) (simp add: lt Inl)
        then show ?thesis using lt by (simp add: emit_def maxRetries_def)
      next
        case False
        let ?w' = "emit (Sleep (200 * (retryCount + 1))) (emit ManipulateAsync w)"
        have eq: "retryLoop p uri retryCount w = retryLoop p uri (retryCount + 1) ?w'"
          using False by (subst retryLoop.simps) (simp add: lt Inl)
        from "1.IH"[OF lt Inl False]
        obtain evs where evs: "trace (snd (retryLoop p uri (retryCount + 1) ?w')) = trace ?w' @ evs"
          "length (filter (\<lambda>e. e = ManipulateAsync) evs) \<le> 3 - (retryCount + 1)"
          "ReadAsStringAsync \<notin> set evs"
          "live (snd (retryLoop p uri (retryCount + 1) ?w')) = live ?w'"
          "nextId (snd (retryLoop p uri (retryCount + 1) ?w')) = nextId ?w'"
          by blast
        have "trace (snd (retryLoop p uri retryCount w)) =
                trace w @ ([ManipulateAsync, Sleep (200 * (retryCount + 1))] @ evs)"
          unfolding eq evs by (simp add: emit_def)
        moreover have "length (filter (\<lambda>e. e = ManipulateAsync)
                ([ManipulateAsync, Sleep (200 * (retryCount + 1))] @ evs)) \<le> 3 - retryCount"
          using evs(2) lt by (simp add: maxRetries_def)
        moreover have "ReadAsStringAsync \<notin> set ([ManipulateAsync, Sleep (200 * (retryCount + 1))] @ evs)"
          using evs(3) by simp
        moreover have "live (snd (retryLoop p uri retryCount w)) = live w"
          "nextId (snd (retryLoop p uri retryCount w)) = nextId w"
          unfolding eq evs by (simp_all add: emit_def)
        ultimately show ?thesis by blast
      qed
    qed
  qed
qed

lemma normalizePrimary_trace: "trace (snd (normalizePrimary sh d w)) = trace w"
  by (simp add: normalizePrimary_def alloc_def dispose_def expandDims0_def divScalar_def)

lemma resizeBilinear_trace: "trace (snd (resizeBilinear p t w)) = trace w"
  by (simp add: resizeBilinear_def alloc_def split: list.splits)

lemma normalizeAlternative_trace: "trace (snd (normalizeAlternative p sh d w)) = trace w"
  by (auto simp: normalizeAlternative_def alloc_def dispose_def expandDims0_def divScalar_def
        resizeBilinear_def split: prod.splits sum.splits list.splits)

lemma alternativeBody_trace:
  "trace (snd (alternativeBody p uri w)) = trace w @ [ReadAsStringAsync]"
  by (auto simp: alternativeBody_def Let_def emit_def normalizeAlternative_trace
        split: sum.splits prod.splits)

lemma processImageAlternative_trace:
  "trace (snd (processImageAlternative p uri w)) = trace w @ [ReadAsStringAsync]"
  using alternativeBody_trace[of p uri w]
  by (auto simp: processImageAlternative_def split: prod.splits sum.splits)

lemma processImageAlternative_failure:
  "(\<exists>t. fst (processImageAlternative p uri w) = Inr t) \<or>
   (\<exists>e. fst (processImageAlternative p uri w) = Inl (AllMethodsFailed e))"
  by (auto simp: processImageAlternative_def split: prod.splits sum.splits)

lemma processImageAlternative_missing:
  "readAsStringAsync p uri = Inl e \<Longrightarrow>
     processImageAlternative p uri w =
       (Inl (AllMethodsFailed (ReadFailed e)), w\<lparr>trace := trace w @ [ReadAsStringAsync]\<rparr>)"
  by (simp add: processImageAlternative_def alternativeBody_def emit_def)

lemma len3: "length (sh::nat list) = 3 \<Longrightarrow> \<exists>a b c. sh = [a, b, c]"
  by (auto simp: numeral_3_eq_3 length_Suc_conv)

lemma len4: "length (sh::nat list) = 4 \<Longrightarrow> \<exists>a b c d. sh = [a, b, c, d]"
  by (auto simp: eval_nat_numeral length_Suc_conv)

lemma normalizeAlternative_rgb:
  "\<exists>t. fst (normalizeAlternative p [h, wd, 3] d w) = Inr t \<and> tshape t = [1, 224, 224, 3] \<and>
       tdata t = map (\<lambda>v. v / 255)
                   (if h = 224 \<and> wd = 224 then d else resizeBilinearData p [h, wd, 3] d)"
  by (simp add: normalizeAlternative_def alloc_def nth_opt_def resizeBilinear_def dispose_def
      expandDims0_def divScalar_def)

lemma resizeBilinear_rank:
  "length sh \<noteq> 3 \<Longrightarrow> length sh \<noteq> 4 \<Longrightarrow>
     resizeBilinear p \<lparr>tid = n, tshape = sh, tdata = d\<rparr> w' =
        (Inl (LibraryError ''Error in resizeBilinear: x must be rank 3 or 4''), w')"
  by (auto simp: resizeBilinear_def split: list.splits)


lemma normalizeAlternative_bad:
  assumes "\<not> (length sh = 3 \<and> sh ! 2 = 3)"
  shows "\<exists>e. fst (normalizeAlternative p sh d w) = Inl e \<and>
           ((\<exists>s. e = InvalidTensorShape s \<and> length s = length sh \<and> last s = last sh) \<or>
            (length sh \<noteq> 3 \<and> length sh \<noteq> 4 \<and>
             e = LibraryError ''Error in resizeBilinear: x must be rank 3 or 4''))"
proof (cases "nth_opt sh 0 \<noteq> Some 224 \<or> nth_opt sh 1 \<noteq> Some 224")
  case False
  then have k: "nth_opt sh 0 = Some 224" "nth_opt sh 1 = Some 224" by simp_all
  have v: "length sh \<noteq> 3 \<or> nth_opt sh 2 \<noteq> Some 3"
    using assms by (auto simp: nth_opt_def)
  have "fst (normalizeAlternative p sh d w) = Inl (InvalidTensorShape sh)"
    using v k by (simp add: normalizeAlternative_def alloc_def dispose_def)
  then show ?thesis by simp
next
  case True
  show ?thesis
  proof (cases "length sh = 3")
    case l3: True
    then obtain h wd c where sh: "sh = [h, wd, c]" using len3 by blast
    with assms have c: "c \<noteq> 3" by simp
    have "fst (normalizeAlternative p sh d w) = Inl (InvalidTensorShape [224, 224, c])"
      using True c unfolding sh
      by (simp add: normalizeAlternative_def alloc_def resizeBilinear_def dispose_def nth_opt_def)
    then show ?thesis by (simp add: sh)
  next
    case n3: False
    show ?thesis
    proof (cases "length sh = 4")
      case True4: True
      then obtain b h wd c where sh: "sh = [b, h, wd, c]" using len4 by blast
      have "fst (normalizeAlternative p sh d w) = Inl (InvalidTensorShape [b, 224, 224, c])"
        using True unfolding sh
        by (simp add: normalizeAlternative_def alloc_def resizeBilinear_def dispose_def nth_opt_def)
      then show ?thesis by (simp add: sh)
    next
      case n4: False
      have "fst (normalizeAlternative p sh d w) =
              Inl (LibraryError ''Error in resizeBilinear: x must be rank 3 or 4'')"
        using True by (simp add: normalizeAlternative_def alloc_def resizeBilinear_rank[OF n3 n4])
      then show ?thesis using n3 n4 by simp
    qed
  qed
qed


section \<open>Inference engine: reconciliation, result and buffers\<close>


lemma prod_list_squeeze: "prod_list (filter (\<lambda>d. d \<noteq> Suc 0) sh) = prod_list (sh :: nat list)"
  by (induction sh) auto

lemma reconcile_result:
  "fst (reconcile t w) =
     (if length (tdata t) < 22 then Inl (InsufficientOutputClasses (length (tdata t)))
      else Inr (if length (tdata t) = 22 \<or> length (tshape t) \<le> 1 then t else fst (squeeze t w),
                take 22 (tdata t)))"
  by (auto simp: reconcile_def squeeze_def alloc_def split: prod.splits)

lemma reconcile_shape:
  assumes "reconcile t w = (Inr (q, sc), w')" and "length (tdata t) = prod_list (tshape t)"
  shows "tshape q \<noteq> []"
proof -
  have ge: "22 \<le> length (tdata t)"
    using assms(1) reconcile_result[of t w] by (auto split: if_splits)
  have q: "q = (if length (tdata t) = 22 \<or> length (tshape t) \<le> 1 then t else fst (squeeze t w))"
    using assms(1) reconcile_result[of t w] by (auto split: if_splits)
  have "prod_list (tshape q) = prod_list (tshape t)"
    unfolding q by (simp add: squeeze_def alloc_def prod_list_squeeze)
  with ge assms(2) have "prod_list (tshape q) \<ge> 22" by simp
  then show ?thesis by auto
qed

lemma predictImageBody_scores:
  assumes it: "imageToTensor p uri w = (Inr x, w1)"
    and pr: "predict mdl x = Inr (psh, pd)"
    and wf: "length pd = prod_list psh"
    and ge: "22 \<le> length pd"
  shows "\<exists>r. fst (predictImageBody p labels uri mdl w) = Inr r \<and> allScores r = take 22 pd"
proof -
  obtain t w2 where al: "alloc psh pd w1 = (t, w2)" by (cases "alloc psh pd w1") auto
  then have t: "tshape t = psh" "tdata t = pd" by (auto simp: alloc_def)
  obtain q w3 where rc: "reconcile t w2 = (Inr (q, take 22 pd), w3)"
    using reconcile_result[of t w2] ge t by (cases "reconcile t w2") auto
  from reconcile_shape[OF rc] wf t have "tshape q \<noteq> []" by simp
  then obtain ix w4 where am: "argMaxLast q w3 = (Inr ix, w4)"
    by (simp add: argMaxLast_def Let_def alloc_def)
  show ?thesis
    by (simp add: predictImageBody_def it pr al rc am Let_def)
qed

lemma predictImageBody_insufficient:
  assumes it: "imageToTensor p uri w = (Inr x, w1)"
    and pr: "predict mdl x = Inr (psh, pd)"
    and lt: "length pd < 22"
  shows "fst (predictImageBody p labels uri mdl w) = Inl (InsufficientOutputClasses (length pd))"
proof -
  obtain t w2 where al: "alloc psh pd w1 = (t, w2)" by (cases "alloc psh pd w1") auto
  then have t: "tdata t = pd" by (auto simp: alloc_def)
  obtain w3 where rc: "reconcile t w2 = (Inl (InsufficientOutputClasses (length pd)), w3)"
    using reconcile_result[of t w2] lt t by (cases "reconcile t w2") auto
  show ?thesis
    by (simp add: predictImageBody_def it pr al rc)
qed

lemma predictImage_of_body:
  "fst (predictImage p labels uri (Some m) w) =
     (case fst (predictImageBody p labels uri m w) of Inl e \<Rightarrow> Inr None | Inr r \<Rightarrow> Inr (Some r))"
  by (simp add: predictImage_def split: prod.splits sum.splits)

text \<open>
  C3. Score reconciliation: 22 raw scores are returned unchanged, more than 22 are cut to
  the first 22 in their order, and fewer than 22 end in the error
  \<open>InsufficientOutputClasses\<close>. For a forward pass whose output tensor is well formed
  (as many values as its shape says), \<open>predictImage\<close> then returns a result whose
  \<open>allScores\<close> are these scores, or, with fewer than 22 values, no result.
\<close>

theorem reconcile_spec:
  "(length (tdata t) = 22 \<longrightarrow> fst (reconcile t w) = Inr (t, tdata t)) \<and>
   (22 < length (tdata t) \<longrightarrow> (\<exists>q. fst (reconcile t w) = Inr (q, take 22 (tdata t)))) \<and>
   (length (tdata t) < 22 \<longrightarrow>
      fst (reconcile t w) = Inl (InsufficientOutputClasses (length (tdata t)))) \<and>
   (imageToTensor p uri w0 = (Inr x, w1) \<and> predict mdl x = Inr (psh, pd) \<and>
    length pd = prod_list psh \<longrightarrow>
      (if length pd < 22
       then fst (predictImageBody p labels uri mdl w0) = Inl (InsufficientOutputClasses (length pd)) \<and>
            fst (predictImage p labels uri (Some mdl) w0) = Inr None
       else \<exists>r. fst (predictImage p labels uri (Some mdl) w0) = Inr (Some r) \<and>
                allScores r = take 22 pd \<and> (length pd = 22 \<longrightarrow> allScores r = pd)))"
proof -
  have a: "length (tdata t) = 22 \<longrightarrow> fst (reconcile t w) = Inr (t, tdata t)"
    by (simp add: reconcile_result)
  have b: "22 < length (tdata t) \<longrightarrow> (\<exists>q. fst (reconcile t w) = Inr (q, take 22 (tdata t)))"
    by (simp add: reconcile_result)
  have c: "length (tdata t) < 22 \<longrightarrow>
      fst (reconcile t w) = Inl (InsufficientOutputClasses (length (tdata t)))"
    by (simp add: reconcile_result)
  have d: "imageToTensor p uri w0 = (Inr x, w1) \<and> predict mdl x = Inr (psh, pd) \<and>
    length pd = prod_list psh \<longrightarrow>
      (if length pd < 22
       then fst (predictImageBody p labels uri mdl w0) = Inl (InsufficientOutputClasses (length pd)) \<and>
            fst (predictImage p labels uri (Some mdl) w0) = Inr None
       else \<exists>r. fst (predictImage p labels uri (Some mdl) w0) = Inr (Some r) \<and>
                allScores r = take 22 pd \<and> (length pd = 22 \<longrightarrow> allScores r = pd))"
  proof (intro impI, elim conjE)
    assume it: "imageToTensor p uri w0 = (Inr x, w1)" and pr: "predict mdl x = Inr (psh, pd)"
      and wf: "length pd = prod_list psh"
    show "if length pd < 22
       then fst (predictImageBody p labels uri mdl w0) = Inl (InsufficientOutputClasses (length pd)) \<and>
            fst (predictImage p labels uri (Some mdl) w0) = Inr None
       else \<exists>r. fst (predictImage p labels uri (Some mdl) w0) = Inr (Some r) \<and>
                allScores r = take 22 pd \<and> (length pd = 22 \<longrightarrow> allScores r = pd)"
    proof (cases "length pd < 22")
      case True
      from predictImageBody_insufficient[OF it pr True, of labels]
      show ?thesis using True by (simp add: predictImage_of_body)
    next
      case False
      then have "22 \<le> length pd" by simp
      from predictImageBody_scores[OF it pr wf this, of labels]
      obtain r where "fst (predictImageBody p labels uri mdl w0) = Inr r" "allScores r = take 22 pd"
        by blast
      then show ?thesis using False by (simp add: predictImage_of_body)
    qed
  qed
  from a b c d show ?thesis by blast
qed

lemma imageToTensor_black:
  "imageToTensor blackImagePlatform ''photo.jpg'' world0 =
     (Inr \<lparr>tid = 2, tshape = [1, 224, 224, 3], tdata = replicate 150528 0\<rparr>,
      \<lparr>nextId = 3, live = [1, 2], trace = [ManipulateAsync]\<rparr>)"
  by (simp add: imageToTensor_def trimIsEmpty_def isSpace_def retryLoop.simps[of _ _ 0]
      maxRetries_def blackImagePlatform_def normalizePrimary_def alloc_def nth_opt_def
      expandDims0_def divScalar_def dispose_def emit_def world0_def)

theorem reconcile_spec_witness:
  "fst (reconcile \<lparr>tid = 0, tshape = [1, 22], tdata = take 22 scores30\<rparr> world0)
     = Inr (\<lparr>tid = 0, tshape = [1, 22], tdata = take 22 scores30\<rparr>, take 22 scores30) \<and>
   (\<exists>q. fst (reconcile \<lparr>tid = 0, tshape = [1, 30], tdata = scores30\<rparr> world0)
     = Inr (q, take 22 scores30)) \<and>
   fst (reconcile \<lparr>tid = 0, tshape = [1, 5], tdata = take 5 scores30\<rparr> world0)
     = Inl (InsufficientOutputClasses 5) \<and>
   fst (predictImage blackImagePlatform [] ''photo.jpg''
          (Some (constantModel [1, 5] (take 5 scores30))) world0) = Inr None \<and>
   (\<exists>r. fst (predictImage blackImagePlatform [] ''photo.jpg''
          (Some (constantModel [1, 30] scores30)) world0) = Inr (Some r) \<and>
        allScores r = take 22 scores30)"
proof -
  have l: "length scores30 = 30" by (simp add: scores30_def)
  note it = imageToTensor_black
  let ?x = "\<lparr>tid = 2, tshape = [1, 224, 224, 3], tdata = replicate 150528 (0::real)\<rparr>"
  have p5: "predict (constantModel [1, 5] (take 5 scores30)) ?x = Inr ([1, 5], take 5 scores30)"
    and p30: "predict (constantModel [1, 30] scores30) ?x = Inr ([1, 30], scores30)"
    by (simp_all add: constantModel_def)
  from reconcile_spec[of "\<lparr>tid = 0, tshape = [1, 22], tdata = take 22 scores30\<rparr>" world0
      blackImagePlatform "''photo.jpg''" world0 ?x _ "constantModel [1, 5] (take 5 scores30)"
      "[1, 5]" "take 5 scores30" "[]"]
    reconcile_spec[of "\<lparr>tid = 0, tshape = [1, 30], tdata = scores30\<rparr>" world0
      blackImagePlatform "''photo.jpg''" world0 ?x _ "constantModel [1, 30] scores30"
      "[1, 30]" "scores30" "[]"]
    reconcile_spec[of "\<lparr>tid = 0, tshape = [1, 5], tdata = take 5 scores30\<rparr>" world0]
    it p5 p30 l
  show ?thesis by simp
qed


text \<open>
  C10. \<open>predictImage\<close> never throws: its result is always a returned value. Without a
  model it returns \<open>null\<close>, and it returns \<open>null\<close> as well when the image
  normalizer, the forward pass or the score reconciliation throws, so \<open>null\<close> does not
  tell the two situations apart.
\<close>

theorem predictImage_never_throws:
  "(\<exists>r. fst (predictImage p labels uri mdl w) = Inr r) \<and>
   predictImage p labels uri None w = (Inr None, w) \<and>
   (fst (imageToTensor p uri w) = Inl e \<longrightarrow>
      fst (predictImage p labels uri (Some m) w) = Inr None) \<and>
   (imageToTensor p uri w = (Inr x, w1) \<and> predict m x = Inl e \<longrightarrow>
      fst (predictImage p labels uri (Some m) w) = Inr None) \<and>
   (imageToTensor p uri w = (Inr x, w1) \<and> predict m x = Inr (psh, pd) \<and>
    fst (reconcile (fst (alloc psh pd w1)) (snd (alloc psh pd w1))) = Inl e \<longrightarrow>
      fst (predictImage p labels uri (Some m) w) = Inr None)"
proof -
  have a: "\<exists>r. fst (predictImage p labels uri mdl w) = Inr r"
    by (cases mdl) (auto simp: predictImage_def split: prod.splits sum.splits)
  have b: "predictImage p labels uri None w = (Inr None, w)"
    by (simp add: predictImage_def)
  have c: "fst (imageToTensor p uri w) = Inl e \<longrightarrow>
      fst (predictImage p labels uri (Some m) w) = Inr None"
    by (cases "imageToTensor p uri w")
       (simp add: predictImage_of_body predictImageBody_def)
  have d: "imageToTensor p uri w = (Inr x, w1) \<and> predict m x = Inl e \<longrightarrow>
      fst (predictImage p labels uri (Some m) w) = Inr None"
    by (simp add: predictImage_of_body predictImageBody_def)
  have e: "imageToTensor p uri w = (Inr x, w1) \<and> predict m x = Inr (psh, pd) \<and>
    fst (reconcile (fst (alloc psh pd w1)) (snd (alloc psh pd w1))) = Inl e \<longrightarrow>
      fst (predictImage p labels uri (Some m) w) = Inr None"
    by (cases "alloc psh pd w1"; cases "reconcile (fst (alloc psh pd w1)) (snd (alloc psh pd w1))")
       (auto simp: predictImage_of_body predictImageBody_def)
  from a b c d e show ?thesis by blast
qed

lemma imageToTensor_missing:
  "imageToTensor missingFilePlatform ''file:///photo.jpg'' world0 =
     (Inl (AllMethodsFailed (ReadFailed (LibraryError ''File does not exist''))),
      \<lparr>nextId = 0, live = [],
       trace = [ManipulateAsync, Sleep 200, ManipulateAsync, Sleep 400, ManipulateAsync,
                ReadAsStringAsync]\<rparr>)"
proof -
  have f: "\<And>n. n < 3 \<Longrightarrow> \<exists>e. manipulateAsync missingFilePlatform ''file:///photo.jpg'' n = Inl e"
    by (simp add: missingFilePlatform_def)
  have r: "readAsStringAsync missingFilePlatform ''file:///photo.jpg''
             = Inl (LibraryError ''File does not exist'')"
    by (simp add: missingFilePlatform_def)
  show ?thesis
    by (simp add: imageToTensor_def trimIsEmpty_def isSpace_def retryLoop_all_fail[OF f]
        processImageAlternative_missing[OF r] world0_def)
qed

theorem predictImage_never_throws_witness:
  "fst (predictImage missingFilePlatform [] ''file:///photo.jpg'' (Some throwingModel) world0)
     = Inr None \<and>
   fst (predictImage blackImagePlatform [] ''photo.jpg'' None world0) = Inr None \<and>
   fst (predictImage blackImagePlatform [] ''photo.jpg'' (Some throwingModel) world0) = Inr None \<and>
   fst (predictImage blackImagePlatform [] ''photo.jpg''
          (Some (constantModel [1, 5] (take 5 scores30))) world0) = Inr None"
proof -
  let ?x = "\<lparr>tid = 2, tshape = [1, 224, 224, 3], tdata = replicate 150528 (0::real)\<rparr>"
  let ?w1 = "\<lparr>nextId = 3, live = [1, 2], trace = [ManipulateAsync]\<rparr>"
  have t: "predict throwingModel ?x = Inl (LibraryError ''Error in forward pass'')"
    by (simp add: throwingModel_def)
  have p5: "predict (constantModel [1, 5] (take 5 scores30)) ?x = Inr ([1, 5], take 5 scores30)"
    by (simp add: constantModel_def)
  have r5: "fst (reconcile (fst (alloc [1, 5] (take 5 scores30) ?w1))
                  (snd (alloc [1, 5] (take 5 scores30) ?w1)))
            = Inl (InsufficientOutputClasses 5)"
    by (simp add: reconcile_result alloc_def scores30_def)
  from predictImage_never_throws[of missingFilePlatform "[]" "''file:///photo.jpg''" _ world0
      "AllMethodsFailed (ReadFailed (LibraryError ''File does not exist''))" throwingModel]
    predictImage_never_throws[of blackImagePlatform "[]" "''photo.jpg''" None world0
      "LibraryError ''Error in forward pass''" throwingModel ?x ?w1]
    predictImage_never_throws[of blackImagePlatform "[]" "''photo.jpg''" None world0
      "InsufficientOutputClasses 5" "constantModel [1, 5] (take 5 scores30)" ?x ?w1
      "[1, 5]" "take 5 scores30"]
    imageToTensor_missing imageToTensor_black t p5 r5
  show ?thesis by simp
qed

text \<open>
  C2. The class index is the arg-max of the tensor \<open>processedPrediction\<close>, which still
  has all the values of the raw output, and not of the 22 reconciled scores. For a raw
  output of 30 values whose maximum among the first 22 is at index 5 and whose greatest
  value is at index 25, \<open>classIndex\<close> is 25, and \<open>confidence\<close> and \<open>label\<close> are undefined.
\<close>

theorem predictImage_argMax_untruncated:
  "case fst (predictImage blackImagePlatform (map localLabel DISEASE_MAPPINGS) ''photo.jpg''
               (Some (constantModel [1, 30] scores30)) world0) of
     Inr (Some r) \<Rightarrow>
       allScores r = take 22 scores30 \<and> argMaxRow (allScores r) = 5 \<and>
       classIndex r = Some 25 \<and> confidence r = None \<and> label r = None
   | _ \<Rightarrow> False"
  by (simp add: predictImage_def predictImageBody_def imageToTensor_black constantModel_def
        alloc_def reconcile_def squeeze_def argMaxLast_def argMaxRow_def scores30_def nth_opt_def
        DISEASE_MAPPINGS_def mk_def dispose_def Let_def split: prod.splits)

text \<open>
  C4. Tensors stay live after \<open>predictImage\<close>. When the reconciliation fails, the
  intermediate of the normalizer (1), the input tensor (2), the raw prediction (3) and the
  squeezed prediction (4) are never disposed; when the forward pass throws, 1 and 2 are
  not; and after a successful call the intermediate of the normalizer (1) and the index
  tensor of \<open>argMax\<close> (5) are still live.
\<close>

theorem predictImage_leaks:
  "live world0 = [] \<and>
   predictImage blackImagePlatform (map localLabel DISEASE_MAPPINGS) ''photo.jpg''
       (Some (constantModel [1, 5] (take 5 scores30))) world0
     = (Inr None, \<lparr>nextId = 5, live = [1, 2, 3, 4], trace = [ManipulateAsync]\<rparr>) \<and>
   predictImage blackImagePlatform (map localLabel DISEASE_MAPPINGS) ''photo.jpg''
       (Some throwingModel) world0
     = (Inr None, \<lparr>nextId = 3, live = [1, 2], trace = [ManipulateAsync]\<rparr>) \<and>
   live (snd (predictImage blackImagePlatform (map localLabel DISEASE_MAPPINGS) ''photo.jpg''
       (Some (constantModel [1, 30] scores30)) world0)) = [1, 5]"
proof -
  have "live world0 = []" by (simp add: world0_def)
  then show ?thesis
    by (simp add: predictImage_def predictImageBody_def imageToTensor_black constantModel_def
        throwingModel_def
        alloc_def reconcile_def squeeze_def argMaxLast_def argMaxRow_def scores30_def nth_opt_def
        DISEASE_MAPPINGS_def mk_def dispose_def Let_def split: prod.splits)
qed


section \<open>Image normalizer: retries, fallback and the decoded tensor\<close>

lemma imageToTensor_all_fail:
  assumes u: "uri \<noteq> []" "\<not> trimIsEmpty uri"
    and np: "\<not> includes_str uri ''files/crop_image_''" "\<not> includes_str uri ''files/gallery_image_''"
    and f: "\<forall>n<3. \<exists>e. manipulateAsync p uri n = Inl e"
  shows "imageToTensor p uri w =
     processImageAlternative p uri
       (w\<lparr>trace := trace w @ (if includes_str uri ''Camera/'' then [Sleep 100] else [])
                       @ [ManipulateAsync, Sleep 200, ManipulateAsync, Sleep 400, ManipulateAsync]\<rparr>)"
proof -
  from f have f': "\<And>n. n < 3 \<Longrightarrow> \<exists>e. manipulateAsync p uri n = Inl e" by blast
  show ?thesis
    by (simp add: imageToTensor_def u np retryLoop_all_fail[OF f'] emit_def)
qed

lemma imageToTensor_trace_bound:
  "\<exists>evs. trace (snd (imageToTensor p uri w)) = trace w @ evs \<and>
         length (filter (\<lambda>e. e = ManipulateAsync) evs) \<le> 3 \<and>
         length (filter (\<lambda>e. e = ReadAsStringAsync) evs) \<le> 1"
proof (cases "uri = [] \<or> trimIsEmpty uri")
  case True
  then have "trace (snd (imageToTensor p uri w)) = trace w @ []"
    by (auto simp: imageToTensor_def)
  then show ?thesis by (intro exI[of _ "[]"]) simp
next
  case nb: False
  show ?thesis
  proof (cases "includes_str uri ''files/crop_image_'' \<or> includes_str uri ''files/gallery_image_''")
    case True
    then have "trace (snd (imageToTensor p uri w)) = trace w @ [ReadAsStringAsync]"
      using nb by (auto simp: imageToTensor_def processImageAlternative_trace)
    then show ?thesis by (intro exI[of _ "[ReadAsStringAsync]"]) simp
  next
    case np: False
    define pre where "pre = (if includes_str uri ''Camera/'' then [Sleep 100] else [])"
    define w' where "w' = (if includes_str uri ''Camera/'' then emit (Sleep 100) w else w)"
    have tw': "trace w' = trace w @ pre" by (simp add: w'_def pre_def emit_def)
    obtain out w1 where rl: "retryLoop p uri 0 w' = (out, w1)" by (cases "retryLoop p uri 0 w'") auto
    from retryLoop_trace[of p uri 0 w'] rl
    obtain evs where evs: "trace w1 = trace w' @ evs"
      "length (filter (\<lambda>e. e = ManipulateAsync) evs) \<le> 3" "ReadAsStringAsync \<notin> set evs"
      by auto
    have pre_f: "filter (\<lambda>e. e = ManipulateAsync) pre = []" "filter (\<lambda>e. e = ReadAsStringAsync) pre = []"
      by (simp_all add: pre_def)
    have noread: "filter (\<lambda>e. e = ReadAsStringAsync) evs = []"
      using evs(3) by (auto simp: filter_empty_conv)
    have it: "imageToTensor p uri w =
        (case (out, w1) of
           (FallBack, w1) \<Rightarrow> processImageAlternative p uri w1
         | (NoResult, w1) \<Rightarrow> (Inl NoBase64, w1)
         | (Resized None, w1) \<Rightarrow> (Inl NoBase64, w1)
         | (Resized (Some base64), w1) \<Rightarrow>
             if base64 = [] then (Inl NoBase64, w1)
             else (case atob p base64 of
                     Inl e \<Rightarrow> (Inl e, w1)
                   | Inr rawBytes \<Rightarrow>
                       (case decodeJpeg p rawBytes of
                          Inl e \<Rightarrow> (Inl e, w1)
                        | Inr (sh, d) \<Rightarrow> normalizePrimary sh d w1)))"
      using nb np by (simp add: imageToTensor_def w'_def[symmetric] rl)
    have "trace (snd (imageToTensor p uri w)) = trace w1 \<or>
          trace (snd (imageToTensor p uri w)) = trace w1 @ [ReadAsStringAsync]"
      unfolding it
      by (auto simp: processImageAlternative_trace normalizePrimary_trace
            split: manipOutcome.splits option.splits sum.splits prod.splits)
    then show ?thesis
    proof
      assume "trace (snd (imageToTensor p uri w)) = trace w1"
      then have "trace (snd (imageToTensor p uri w)) = trace w @ (pre @ evs)"
        by (simp add: evs tw')
      then show ?thesis using evs(2) pre_f noread by (intro exI[of _ "pre @ evs"]) simp
    next
      assume "trace (snd (imageToTensor p uri w)) = trace w1 @ [ReadAsStringAsync]"
      then have "trace (snd (imageToTensor p uri w)) = trace w @ (pre @ evs @ [ReadAsStringAsync])"
        by (simp add: evs tw')
      then show ?thesis using evs(2) pre_f noread
        by (intro exI[of _ "pre @ evs @ [ReadAsStringAsync]"]) simp
    qed
  qed
qed


lemma length_concat_replicate: "length (concat (replicate n xs)) = n * length xs"
  by (induction n) auto

lemma length_concat_map_replicate:
  "length (concat (map (\<lambda>x. replicate k (g x)) xs)) = k * length xs"
  by (induction xs) auto

lemma map_concat_replicate_rows:
  "map f (concat (replicate n (concat (map (\<lambda>x. replicate k (g x)) xs))))
     = concat (replicate n (concat (map (\<lambda>x. replicate k (f (g x))) xs)))"
  by (simp add: map_concat comp_def)

lemma twoPixelResult_length: "length twoPixelResult = 150528"
  unfolding twoPixelResult_def
  by (simp add: length_concat_replicate length_concat_map_replicate del: upt_rec_numeral)

lemma nth_concat_replicate_first:
  "i < length xs \<Longrightarrow> concat (replicate (Suc n) xs) ! i = xs ! i"
  by (simp add: nth_append)

lemma nth3_concat_map_replicate:
  "concat (map (\<lambda>x. replicate 3 (g x)) (a # b # xs)) ! 3 = g b"
  by (simp add: nth_append numeral_3_eq_3)

lemma twoPixelResult_nth3: "twoPixelResult ! 3 = 1 / 112"
proof -
  define row :: "real list" where
    "row = concat (map (\<lambda>x. replicate 3 (real (min x 112) / 112)) [0..<224])"
  have u0: "[0..<224] = 0 # [Suc 0..<224]" by (rule upt_conv_Cons) simp
  have u1: "[Suc 0..<224] = Suc 0 # [Suc (Suc 0)..<224]" by (rule upt_conv_Cons) simp
  have lr: "3 < length row"
    unfolding row_def by (simp add: length_concat_map_replicate del: upt_rec_numeral)
  have "row ! 3 = real (min (Suc 0) 112) / 112"
    unfolding row_def u0 u1 by (rule nth3_concat_map_replicate)
  then have r: "row ! 3 = 1 / 112" by simp
  have "(224::nat) = Suc 223" by simp
  then have "twoPixelResult = concat (replicate (Suc 223) row)"
    unfolding twoPixelResult_def row_def by (simp only:)
  then show ?thesis using nth_concat_replicate_first[OF lr, of 223] r by (simp only:)
qed

lemma twoPixel_scaled:
  "map (\<lambda>v. v / 255) (resizeBilinearData twoPixelPlatform sh d) = twoPixelResult"
  by (simp add: twoPixelPlatform_def twoPixelResult_def map_concat_replicate_rows
      del: upt_rec_numeral)

lemma twoPixel_fields:
  "readAsStringAsync twoPixelPlatform uri = Inr ''/9j/4AAQ''"
  "atob twoPixelPlatform s = Inr [255, 216, 255, 224]"
  "decodeJpeg twoPixelPlatform bytes = Inr ([1, 2, 3], [0, 0, 0, 255, 255, 255])"
  by (simp_all add: twoPixelPlatform_def)

lemma normalizePrimary_ok:
  "length sh = 3 \<Longrightarrow> sh ! 2 = 3 \<Longrightarrow>
     \<exists>t. fst (normalizePrimary sh d w) = Inr t \<and> tshape t = 1 # sh \<and>
         tdata t = map (\<lambda>v. v / 255) d"
  by (simp add: normalizePrimary_def alloc_def nth_opt_def expandDims0_def divScalar_def)

lemma normalizePrimary_bad:
  "\<not> (length sh = 3 \<and> sh ! 2 = 3) \<Longrightarrow>
     fst (normalizePrimary sh d w) = Inl (InvalidDecodedShape sh)"
  by (auto simp: normalizePrimary_def alloc_def nth_opt_def)

lemma imageToTensor_primary:
  assumes "uri \<noteq> []" "\<not> trimIsEmpty uri" "\<not> includes_str uri ''files/crop_image_''"
    "\<not> includes_str uri ''files/gallery_image_''"
    and "retryLoop p uri 0 (if includes_str uri ''Camera/'' then emit (Sleep 100) w else w)
           = (Resized (Some b), w1)"
    and "b \<noteq> []" "atob p b = Inr bytes" "decodeJpeg p bytes = Inr (sh, d)"
  shows "imageToTensor p uri w = normalizePrimary sh d w1"
  using assms by (simp add: imageToTensor_def)

lemma processImageAlternative_decoded:
  assumes "readAsStringAsync p uri = Inr b" "atob p b = Inr bytes" "decodeJpeg p bytes = Inr (sh, d)"
  shows "fst (processImageAlternative p uri w) =
     (case fst (normalizeAlternative p sh d (emit ReadAsStringAsync w)) of
        Inl e \<Rightarrow> Inl (AllMethodsFailed e) | Inr t \<Rightarrow> Inr t)"
  using assms
  by (simp add: processImageAlternative_def alternativeBody_def split: prod.splits sum.splits)

text \<open>
  C8, as the code has it. On the primary path a decoded tensor that does not have three
  dimensions with the last equal to 3 ends the call with \<open>InvalidDecodedShape\<close>;
  otherwise the result has the decoded shape with a batch dimension in front, and the
  decoded values divided by 255. On the direct-read path such a tensor ends the call with
  \<open>AllMethodsFailed\<close>, around \<open>InvalidTensorShape\<close> or, when the tensor has to be resized
  and has neither three nor four dimensions, around the error of \<open>resizeBilinear\<close>;
  otherwise the result has shape [1, 224, 224, 3], and its values are the decoded values
  divided by 255 if the decoded tensor is 224 x 224, and the resized values divided by
  255 if it is not.
\<close>

theorem decoded_tensor_contract:
  "(uri \<noteq> [] \<and> \<not> trimIsEmpty uri \<and> \<not> includes_str uri ''files/crop_image_'' \<and>
    \<not> includes_str uri ''files/gallery_image_'' \<and>
    retryLoop p uri 0 (if includes_str uri ''Camera/'' then emit (Sleep 100) w else w)
      = (Resized (Some b), w1) \<and>
    b \<noteq> [] \<and> atob p b = Inr bytes \<and> decodeJpeg p bytes = Inr (sh, d) \<longrightarrow>
      (if length sh = 3 \<and> sh ! 2 = 3
       then \<exists>t. fst (imageToTensor p uri w) = Inr t \<and> tshape t = 1 # sh \<and>
                tdata t = map (\<lambda>v. v / 255) d
       else fst (imageToTensor p uri w) = Inl (InvalidDecodedShape sh))) \<and>
   (readAsStringAsync p uri' = Inr b' \<and> atob p b' = Inr bytes' \<and>
    decodeJpeg p bytes' = Inr (sh', d') \<longrightarrow>
      (if length sh' = 3 \<and> sh' ! 2 = 3
       then \<exists>t. fst (processImageAlternative p uri' w') = Inr t \<and>
                tshape t = [1, 224, 224, 3] \<and>
                tdata t = map (\<lambda>v. v / 255)
                            (if sh' = [224, 224, 3] then d' else resizeBilinearData p sh' d')
       else \<exists>e. fst (processImageAlternative p uri' w') = Inl (AllMethodsFailed e) \<and>
                ((\<exists>s. e = InvalidTensorShape s \<and> length s = length sh' \<and> last s = last sh') \<or>
                 (length sh' \<noteq> 3 \<and> length sh' \<noteq> 4 \<and>
                  e = LibraryError ''Error in resizeBilinear: x must be rank 3 or 4''))))"
proof (intro conjI impI)
  assume h: "uri \<noteq> [] \<and> \<not> trimIsEmpty uri \<and> \<not> includes_str uri ''files/crop_image_'' \<and>
    \<not> includes_str uri ''files/gallery_image_'' \<and>
    retryLoop p uri 0 (if includes_str uri ''Camera/'' then emit (Sleep 100) w else w)
      = (Resized (Some b), w1) \<and>
    b \<noteq> [] \<and> atob p b = Inr bytes \<and> decodeJpeg p bytes = Inr (sh, d)"
  then have eq: "imageToTensor p uri w = normalizePrimary sh d w1"
    by (intro imageToTensor_primary[where b = b and bytes = bytes]) simp_all
  show "if length sh = 3 \<and> sh ! 2 = 3
       then \<exists>t. fst (imageToTensor p uri w) = Inr t \<and> tshape t = 1 # sh \<and>
                tdata t = map (\<lambda>v. v / 255) d
       else fst (imageToTensor p uri w) = Inl (InvalidDecodedShape sh)"
  proof (cases "length sh = 3 \<and> sh ! 2 = 3")
    case True
    then show ?thesis unfolding eq using normalizePrimary_ok[of sh d w1] by simp
  next
    case False
    then show ?thesis unfolding eq using normalizePrimary_bad[of sh d w1] by simp
  qed
next
  assume h: "readAsStringAsync p uri' = Inr b' \<and> atob p b' = Inr bytes' \<and>
    decodeJpeg p bytes' = Inr (sh', d')"
  then have eq: "fst (processImageAlternative p uri' w') =
     (case fst (normalizeAlternative p sh' d' (emit ReadAsStringAsync w')) of
        Inl e \<Rightarrow> Inl (AllMethodsFailed e) | Inr t \<Rightarrow> Inr t)"
    by (intro processImageAlternative_decoded[where b = b' and bytes = bytes']) simp_all
  show "if length sh' = 3 \<and> sh' ! 2 = 3
       then \<exists>t. fst (processImageAlternative p uri' w') = Inr t \<and>
                tshape t = [1, 224, 224, 3] \<and>
                tdata t = map (\<lambda>v. v / 255)
                            (if sh' = [224, 224, 3] then d' else resizeBilinearData p sh' d')
       else \<exists>e. fst (processImageAlternative p uri' w') = Inl (AllMethodsFailed e) \<and>
                ((\<exists>s. e = InvalidTensorShape s \<and> length s = length sh' \<and> last s = last sh') \<or>
                 (length sh' \<noteq> 3 \<and> length sh' \<noteq> 4 \<and>
                  e = LibraryError ''Error in resizeBilinear: x must be rank 3 or 4''))"
  proof (cases "length sh' = 3 \<and> sh' ! 2 = 3")
    case True
    then obtain hh wd c where sh: "sh' = [hh, wd, c]" using len3 by blast
    with True have c: "c = 3" by simp
    from normalizeAlternative_rgb[of p hh wd d' "emit ReadAsStringAsync w'"]
    obtain t where t: "fst (normalizeAlternative p [hh, wd, 3] d' (emit ReadAsStringAsync w')) = Inr t"
      "tshape t = [1, 224, 224, 3]"
      "tdata t = map (\<lambda>v. v / 255)
                   (if hh = 224 \<and> wd = 224 then d' else resizeBilinearData p [hh, wd, 3] d')"
      by blast
    have "fst (processImageAlternative p uri' w') = Inr t"
      unfolding eq sh c by (simp add: t(1))
    moreover have "tdata t = map (\<lambda>v. v / 255)
                            (if sh' = [224, 224, 3] then d' else resizeBilinearData p sh' d')"
      unfolding t(3) sh c by simp
    ultimately show ?thesis using True t(2) by auto
  next
    case False
    from normalizeAlternative_bad[OF False, of p d' "emit ReadAsStringAsync w'"]
    obtain e where e: "fst (normalizeAlternative p sh' d' (emit ReadAsStringAsync w')) = Inl e"
      "(\<exists>s. e = InvalidTensorShape s \<and> length s = length sh' \<and> last s = last sh') \<or>
            (length sh' \<noteq> 3 \<and> length sh' \<noteq> 4 \<and>
             e = LibraryError ''Error in resizeBilinear: x must be rank 3 or 4'')"
      by blast
    have "fst (processImageAlternative p uri' w') = Inl (AllMethodsFailed e)"
      unfolding eq by (simp add: e(1))
    then show ?thesis using False e(2) by auto
  qed
qed

lemma retryLoop_first:
  "manipulateAsync p uri 0 = Inr r \<Longrightarrow>
     retryLoop p uri 0 w = (Resized r, emit ManipulateAsync w)"
  by (subst retryLoop.simps) (simp add: maxRetries_def)

theorem decoded_tensor_contract_witness:
  "(\<exists>t. fst (imageToTensor blackImagePlatform ''photo.jpg'' world0) = Inr t \<and>
        tshape t = [1, 224, 224, 3] \<and> tdata t = map (\<lambda>v. v / 255) (replicate 150528 0)) \<and>
   (\<exists>t. fst (processImageAlternative blackImagePlatform ''photo.jpg'' world0) = Inr t \<and>
        tshape t = [1, 224, 224, 3] \<and> tdata t = map (\<lambda>v. v / 255) (replicate 150528 0)) \<and>
   fst (imageToTensor grayPlatform ''photo.jpg'' world0) = Inl (InvalidDecodedShape [224, 224, 1]) \<and>
   (\<exists>e. fst (processImageAlternative grayPlatform ''photo.jpg'' world0)
          = Inl (AllMethodsFailed e)) \<and>
   (\<exists>t. fst (processImageAlternative twoPixelPlatform ''photo.jpg'' world0) = Inr t \<and>
        tshape t = [1, 224, 224, 3] \<and>
        tdata t = map (\<lambda>v. v / 255)
                    (resizeBilinearData twoPixelPlatform [1, 2, 3] [0, 0, 0, 255, 255, 255]))"
proof -
  have u: "''photo.jpg'' \<noteq> [] \<and> \<not> trimIsEmpty ''photo.jpg'' \<and>
      \<not> includes_str ''photo.jpg'' ''files/crop_image_'' \<and>
      \<not> includes_str ''photo.jpg'' ''files/gallery_image_''"
    and c: "\<not> includes_str ''photo.jpg'' ''Camera/''"
    by (simp_all add: trimIsEmpty_def isSpace_def)
  have bf: "manipulateAsync blackImagePlatform ''photo.jpg'' 0 = Inr (Some ''/9j/4AAQ'')"
    "readAsStringAsync blackImagePlatform ''photo.jpg'' = Inr ''/9j/4AAQ''"
    "atob blackImagePlatform ''/9j/4AAQ'' = Inr [255, 216, 255, 224]"
    "decodeJpeg blackImagePlatform [255, 216, 255, 224] = Inr ([224, 224, 3], replicate 150528 0)"
    by (simp_all add: blackImagePlatform_def)
  have gf: "manipulateAsync grayPlatform ''photo.jpg'' 0 = Inr (Some ''/9j/4AAQ'')"
    "readAsStringAsync grayPlatform ''photo.jpg'' = Inr ''/9j/4AAQ''"
    "atob grayPlatform ''/9j/4AAQ'' = Inr [255, 216, 255, 224]"
    "decodeJpeg grayPlatform [255, 216, 255, 224] = Inr ([224, 224, 1], replicate 50176 0)"
    by (simp_all add: grayPlatform_def)
  note br = retryLoop_first[OF bf(1), of world0]
  note gr = retryLoop_first[OF gf(1), of world0]
  note tb = decoded_tensor_contract[where uri = "''photo.jpg''" and p = blackImagePlatform
      and w = world0 and b = "''/9j/4AAQ''" and ?w1.0 = "emit ManipulateAsync world0"
      and bytes = "[255, 216, 255, 224]" and sh = "[224, 224, 3]" and d = "replicate 150528 0"
      and uri' = "''photo.jpg''" and b' = "''/9j/4AAQ''" and bytes' = "[255, 216, 255, 224]"
      and sh' = "[224, 224, 3]" and d' = "replicate 150528 0" and w' = world0]
  note tg = decoded_tensor_contract[where uri = "''photo.jpg''" and p = grayPlatform
      and w = world0 and b = "''/9j/4AAQ''" and ?w1.0 = "emit ManipulateAsync world0"
      and bytes = "[255, 216, 255, 224]" and sh = "[224, 224, 1]" and d = "replicate 50176 0"
      and uri' = "''photo.jpg''" and b' = "''/9j/4AAQ''" and bytes' = "[255, 216, 255, 224]"
      and sh' = "[224, 224, 1]" and d' = "replicate 50176 0" and w' = world0]
  note tt = decoded_tensor_contract[where uri = "''photo.jpg''" and p = twoPixelPlatform
      and w = world0 and b = "''/9j/4AAQ''" and ?w1.0 = "emit ManipulateAsync world0"
      and bytes = "[255, 216, 255, 224]" and sh = "[1, 2, 3]" and d = "[0, 0, 0, 255, 255, 255]"
      and uri' = "''photo.jpg''" and b' = "''/9j/4AAQ''" and bytes' = "[255, 216, 255, 224]"
      and sh' = "[1, 2, 3]" and d' = "[0, 0, 0, 255, 255, 255]" and w' = world0]
  have b1: "\<exists>t. fst (imageToTensor blackImagePlatform ''photo.jpg'' world0) = Inr t \<and>
        tshape t = [1, 224, 224, 3] \<and> tdata t = map (\<lambda>v. v / 255) (replicate 150528 0)"
    using tb[THEN conjunct1] u c bf br by simp
  have b2: "\<exists>t. fst (processImageAlternative blackImagePlatform ''photo.jpg'' world0) = Inr t \<and>
        tshape t = [1, 224, 224, 3] \<and> tdata t = map (\<lambda>v. v / 255) (replicate 150528 0)"
    using tb[THEN conjunct2] bf by simp
  have g1: "fst (imageToTensor grayPlatform ''photo.jpg'' world0)
              = Inl (InvalidDecodedShape [224, 224, 1])"
    using tg[THEN conjunct1] u c gf gr by simp
  have g2: "\<exists>e. fst (processImageAlternative grayPlatform ''photo.jpg'' world0)
          = Inl (AllMethodsFailed e)"
    using tg[THEN conjunct2] gf by auto
  have t2: "\<exists>t. fst (processImageAlternative twoPixelPlatform ''photo.jpg'' world0) = Inr t \<and>
        tshape t = [1, 224, 224, 3] \<and>
        tdata t = map (\<lambda>v. v / 255)
                    (resizeBilinearData twoPixelPlatform [1, 2, 3] [0, 0, 0, 255, 255, 255])"
    using tt[THEN conjunct2] twoPixel_fields by simp
  from b1 b2 g1 g2 t2 show ?thesis by blast
qed


text \<open>
  C8 as stated fails on the direct-read path: the image of two pixels decodes to a tensor
  of shape [1, 2, 3] with the values 0, 0, 0, 255, 255, 255, and the result has 150528
  values, the fourth of which is 1 / 112: an interpolated value divided by 255, and not
  a decoded byte divided by 255.
\<close>

theorem fallback_divides_resized_values:
  "decodeJpeg twoPixelPlatform [255, 216, 255, 224] = Inr ([1, 2, 3], [0, 0, 0, 255, 255, 255]) \<and>
   fst (imageToTensor twoPixelPlatform ''file:///data/files/crop_image_1.jpg'' world0)
     = Inr \<lparr>tid = 3, tshape = [1, 224, 224, 3], tdata = twoPixelResult\<rparr> \<and>
   length twoPixelResult = 150528 \<and> twoPixelResult ! 3 = 1 / 112"
proof -
  have "fst (imageToTensor twoPixelPlatform ''file:///data/files/crop_image_1.jpg'' world0)
     = Inr \<lparr>tid = 3, tshape = [1, 224, 224, 3], tdata = twoPixelResult\<rparr>"
    by (simp add: imageToTensor_def trimIsEmpty_def isSpace_def processImageAlternative_def
        alternativeBody_def twoPixel_fields normalizeAlternative_def alloc_def nth_opt_def
        resizeBilinear_def dispose_def expandDims0_def divScalar_def twoPixel_scaled
        emit_def world0_def)
  then show ?thesis
    by (simp add: twoPixel_fields twoPixelResult_length twoPixelResult_nth3)
qed


lemma retryLoop_second:
  "manipulateAsync p uri 0 = Inl e0 \<Longrightarrow> manipulateAsync p uri (Suc 0) = Inr r \<Longrightarrow>
     retryLoop p uri 0 w =
       (Resized r, w\<lparr>trace := trace w @ [ManipulateAsync, Sleep 200, ManipulateAsync]\<rparr>)"
proof -
  assume e: "manipulateAsync p uri 0 = Inl e0" "manipulateAsync p uri (Suc 0) = Inr r"
  have s1: "retryLoop p uri (Suc 0) w' = (Resized r, emit ManipulateAsync w')" for w'
    by (subst retryLoop.simps) (simp add: e maxRetries_def)
  have s0: "retryLoop p uri 0 w' =
      retryLoop p uri (Suc 0) (emit (Sleep 200) (emit ManipulateAsync w'))" for w'
    by (subst retryLoop.simps) (simp add: e maxRetries_def)
  show ?thesis by (simp add: s0 s1 emit_def)
qed

lemma retryLoop_third:
  "manipulateAsync p uri 0 = Inl e0 \<Longrightarrow> manipulateAsync p uri (Suc 0) = Inl e1 \<Longrightarrow>
   manipulateAsync p uri (Suc (Suc 0)) = Inr r \<Longrightarrow>
     retryLoop p uri 0 w =
       (Resized r, w\<lparr>trace := trace w @ [ManipulateAsync, Sleep 200, ManipulateAsync,
                                          Sleep 400, ManipulateAsync]\<rparr>)"
proof -
  assume e: "manipulateAsync p uri 0 = Inl e0" "manipulateAsync p uri (Suc 0) = Inl e1"
    "manipulateAsync p uri (Suc (Suc 0)) = Inr r"
  have s2: "retryLoop p uri (Suc (Suc 0)) w' = (Resized r, emit ManipulateAsync w')" for w'
    by (subst retryLoop.simps) (simp add: e maxRetries_def)
  have s1: "retryLoop p uri (Suc 0) w' =
      retryLoop p uri (Suc (Suc 0)) (emit (Sleep 400) (emit ManipulateAsync w'))" for w'
    by (subst retryLoop.simps) (simp add: e maxRetries_def)
  have s0: "retryLoop p uri 0 w' =
      retryLoop p uri (Suc 0) (emit (Sleep 200) (emit ManipulateAsync w'))" for w'
    by (subst retryLoop.simps) (simp add: e maxRetries_def)
  show ?thesis by (simp add: s0 s1 s2 emit_def)
qed

lemma retryLoop_success:
  assumes k: "k < 3" and f: "\<forall>n<k. \<exists>e. manipulateAsync p uri n = Inl e"
    and r: "manipulateAsync p uri k = Inr r"
  shows "\<exists>evs. retryLoop p uri 0 w = (Resized r, w\<lparr>trace := trace w @ evs\<rparr>) \<and>
           ReadAsStringAsync \<notin> set evs \<and>
           length (filter (\<lambda>e. e = ManipulateAsync) evs) = k + 1"
proof -
  from k consider "k = 0" | "k = Suc 0" | "k = Suc (Suc 0)" by linarith
  then show ?thesis
  proof cases
    case 1
    with r have "retryLoop p uri 0 w = (Resized r, w\<lparr>trace := trace w @ [ManipulateAsync]\<rparr>)"
      by (simp add: retryLoop_first emit_def)
    then show ?thesis using 1 by (intro exI[of _ "[ManipulateAsync]"]) simp
  next
    case 2
    with f obtain e0 where "manipulateAsync p uri 0 = Inl e0" by auto
    from retryLoop_second[OF this, of r w] r 2
    show ?thesis by (intro exI[of _ "[ManipulateAsync, Sleep 200, ManipulateAsync]"]) simp
  next
    case 3
    with f obtain e0 e1 where "manipulateAsync p uri 0 = Inl e0"
      "manipulateAsync p uri (Suc 0) = Inl e1"
      by (metis lessI less_Suc_eq zero_less_Suc)
    from retryLoop_third[OF this, of r w] r 3
    show ?thesis
      by (intro exI[of _ "[ManipulateAsync, Sleep 200, ManipulateAsync, Sleep 400,
                           ManipulateAsync]"]) simp
  qed
qed

lemma imageToTensor_resized:
  assumes u: "uri \<noteq> []" "\<not> trimIsEmpty uri"
    and np: "\<not> includes_str uri ''files/crop_image_''" "\<not> includes_str uri ''files/gallery_image_''"
    and rl: "retryLoop p uri 0 (if includes_str uri ''Camera/'' then emit (Sleep 100) w else w)
               = (Resized r, w1)"
  shows "trace (snd (imageToTensor p uri w)) = trace w1 \<and>
         (r = None \<or> r = Some [] \<longrightarrow> imageToTensor p uri w = (Inl NoBase64, w1))"
  using u np rl
  by (auto simp: imageToTensor_def normalizePrimary_trace split: option.splits sum.splits)

lemma processImageAlternative_fst:
  "fst (processImageAlternative p uri w) =
     (case readAsStringAsync p uri of
        Inl e \<Rightarrow> Inl (AllMethodsFailed (ReadFailed e))
      | Inr b \<Rightarrow>
          (case atob p b of
             Inl e \<Rightarrow> Inl (AllMethodsFailed e)
           | Inr bytes \<Rightarrow>
               (case decodeJpeg p bytes of
                  Inl e \<Rightarrow> Inl (AllMethodsFailed e)
                | Inr (sh, d) \<Rightarrow>
                    (case fst (normalizeAlternative p sh d (emit ReadAsStringAsync w)) of
                       Inl e \<Rightarrow> Inl (AllMethodsFailed e)
                     | Inr t \<Rightarrow> Inr t))))"
  by (simp add: processImageAlternative_def alternativeBody_def Let_def
      split: prod.splits sum.splits)

lemma processImageAlternative_result:
  assumes "readAsStringAsync p uri = Inr b" "atob p b = Inr bytes" "decodeJpeg p bytes = Inr (sh, d)"
  shows "if length sh = 3 \<and> sh ! 2 = 3
       then \<exists>t. fst (processImageAlternative p uri w) = Inr t \<and>
                tshape t = [1, 224, 224, 3] \<and>
                tdata t = map (\<lambda>v. v / 255)
                            (if sh = [224, 224, 3] then d else resizeBilinearData p sh d)
       else \<exists>e. fst (processImageAlternative p uri w) = Inl (AllMethodsFailed e) \<and>
                ((\<exists>s. e = InvalidTensorShape s \<and> length s = length sh \<and> last s = last sh) \<or>
                 (length sh \<noteq> 3 \<and> length sh \<noteq> 4 \<and>
                  e = LibraryError ''Error in resizeBilinear: x must be rank 3 or 4''))"
proof -
  note eq = processImageAlternative_decoded[OF assms, of w]
  show ?thesis
  proof (cases "length sh = 3 \<and> sh ! 2 = 3")
    case True
    then obtain hh wd c where sh: "sh = [hh, wd, c]" using len3 by blast
    with True have c: "c = 3" by simp
    from normalizeAlternative_rgb[of p hh wd d "emit ReadAsStringAsync w"]
    obtain t where t: "fst (normalizeAlternative p [hh, wd, 3] d (emit ReadAsStringAsync w)) = Inr t"
      "tshape t = [1, 224, 224, 3]"
      "tdata t = map (\<lambda>v. v / 255)
                   (if hh = 224 \<and> wd = 224 then d else resizeBilinearData p [hh, wd, 3] d)"
      by blast
    have "fst (processImageAlternative p uri w) = Inr t"
      unfolding eq sh c by (simp add: t(1))
    moreover have "tdata t = map (\<lambda>v. v / 255)
                            (if sh = [224, 224, 3] then d else resizeBilinearData p sh d)"
      unfolding t(3) sh c by simp
    ultimately show ?thesis using True t(2) by auto
  next
    case False
    from normalizeAlternative_bad[OF False, of p d "emit ReadAsStringAsync w"]
    obtain e where e: "fst (normalizeAlternative p sh d (emit ReadAsStringAsync w)) = Inl e"
      "(\<exists>s. e = InvalidTensorShape s \<and> length s = length sh \<and> last s = last sh) \<or>
            (length sh \<noteq> 3 \<and> length sh \<noteq> 4 \<and>
             e = LibraryError ''Error in resizeBilinear: x must be rank 3 or 4'')"
      by blast
    have "fst (processImageAlternative p uri w) = Inl (AllMethodsFailed e)"
      unfolding eq by (simp add: e(1))
    then show ?thesis using False e(2) by auto
  qed
qed

text \<open>
  C7, as the code has it, for a reference that is not blank and is not one of the
  application's own files. When \<open>manipulateAsync\<close> throws at each of its three attempts,
  \<open>imageToTensor\<close> makes exactly these attempts, waits 200 ms and 400 ms between them,
  and then takes the direct-read path once: it reads the file, decodes the bytes, resizes
  the decoded tensor only if it is not 224 x 224, validates it, adds the batch dimension
  and divides by 255. A failure of any of these steps ends the call with
  \<open>AllMethodsFailed\<close> (around \<open>ReadFailed\<close> for a file that cannot be read, with no tensor
  left live) and no tensor is returned. When an attempt returns, after fewer than three
  throws, there is no further attempt and no direct read; if the returned image has no
  \<open>base64\<close>, the call ends at once with \<open>NoBase64\<close>. For every reference there are at
  most three attempts and at most one direct read.
\<close>

theorem imageToTensor_retry_fallback:
  "(uri \<noteq> [] \<and> \<not> trimIsEmpty uri \<and> \<not> includes_str uri ''files/crop_image_'' \<and>
    \<not> includes_str uri ''files/gallery_image_'' \<and>
    (\<forall>n<3. \<exists>e. manipulateAsync p uri n = Inl e) \<longrightarrow>
      trace (snd (imageToTensor p uri w)) =
        trace w @ (if includes_str uri ''Camera/'' then [Sleep 100] else [])
                @ [ManipulateAsync, Sleep 200, ManipulateAsync, Sleep 400, ManipulateAsync,
                   ReadAsStringAsync] \<and>
      fst (imageToTensor p uri w) =
        (case readAsStringAsync p uri of
           Inl e \<Rightarrow> Inl (AllMethodsFailed (ReadFailed e))
         | Inr b0 \<Rightarrow>
             (case atob p b0 of
                Inl e \<Rightarrow> Inl (AllMethodsFailed e)
              | Inr bytes0 \<Rightarrow>
                  (case decodeJpeg p bytes0 of
                     Inl e \<Rightarrow> Inl (AllMethodsFailed e)
                   | Inr (sh0, d0) \<Rightarrow>
                       (case fst (normalizeAlternative p sh0 d0
                                    (emit ReadAsStringAsync
                                       (w\<lparr>trace := trace w
                                            @ (if includes_str uri ''Camera/''
                                               then [Sleep 100] else [])
                                            @ [ManipulateAsync, Sleep 200, ManipulateAsync,
                                               Sleep 400, ManipulateAsync]\<rparr>))) of
                          Inl e \<Rightarrow> Inl (AllMethodsFailed e)
                        | Inr t \<Rightarrow> Inr t)))) \<and>
      (\<forall>e. readAsStringAsync p uri = Inl e \<longrightarrow>
           fst (imageToTensor p uri w) = Inl (AllMethodsFailed (ReadFailed e)) \<and>
           live (snd (imageToTensor p uri w)) = live w) \<and>
      (readAsStringAsync p uri = Inr b \<and> atob p b = Inr bytes \<and>
       decodeJpeg p bytes = Inr (sh, d) \<longrightarrow>
         (if length sh = 3 \<and> sh ! 2 = 3
          then \<exists>t. fst (imageToTensor p uri w) = Inr t \<and> tshape t = [1, 224, 224, 3] \<and>
                   tdata t = map (\<lambda>v. v / 255)
                               (if sh = [224, 224, 3] then d else resizeBilinearData p sh d)
          else \<exists>e. fst (imageToTensor p uri w) = Inl (AllMethodsFailed e) \<and>
                   ((\<exists>s. e = InvalidTensorShape s \<and> length s = length sh \<and> last s = last sh) \<or>
                    (length sh \<noteq> 3 \<and> length sh \<noteq> 4 \<and>
                     e = LibraryError ''Error in resizeBilinear: x must be rank 3 or 4''))))) \<and>
   (uri \<noteq> [] \<and> \<not> trimIsEmpty uri \<and> \<not> includes_str uri ''files/crop_image_'' \<and>
    \<not> includes_str uri ''files/gallery_image_'' \<and>
    k < 3 \<and> (\<forall>n<k. \<exists>e. manipulateAsync p uri n = Inl e) \<and>
    manipulateAsync p uri k = Inr r \<longrightarrow>
      (\<exists>evs. trace (snd (imageToTensor p uri w)) =
                trace w @ (if includes_str uri ''Camera/'' then [Sleep 100] else []) @ evs \<and>
             ReadAsStringAsync \<notin> set evs \<and>
             length (filter (\<lambda>e. e = ManipulateAsync) evs) = k + 1) \<and>
      (r = None \<or> r = Some [] \<longrightarrow>
         fst (imageToTensor p uri w) = Inl NoBase64 \<and>
         live (snd (imageToTensor p uri w)) = live w)) \<and>
   (\<exists>evs. trace (snd (imageToTensor p uri w)) = trace w @ evs \<and>
          length (filter (\<lambda>e. e = ManipulateAsync) evs) \<le> 3 \<and>
          length (filter (\<lambda>e. e = ReadAsStringAsync) evs) \<le> 1)"
proof (intro conjI impI)
  assume h: "uri \<noteq> [] \<and> \<not> trimIsEmpty uri \<and> \<not> includes_str uri ''files/crop_image_'' \<and>
    \<not> includes_str uri ''files/gallery_image_'' \<and>
    (\<forall>n<3. \<exists>e. manipulateAsync p uri n = Inl e)"
  let ?w = "w\<lparr>trace := trace w @ (if includes_str uri ''Camera/'' then [Sleep 100] else [])
                          @ [ManipulateAsync, Sleep 200, ManipulateAsync, Sleep 400,
                             ManipulateAsync]\<rparr>"
  from h have eq: "imageToTensor p uri w = processImageAlternative p uri ?w"
    by (intro imageToTensor_all_fail) simp_all
  show "trace (snd (imageToTensor p uri w)) =
        trace w @ (if includes_str uri ''Camera/'' then [Sleep 100] else [])
                @ [ManipulateAsync, Sleep 200, ManipulateAsync, Sleep 400, ManipulateAsync,
                   ReadAsStringAsync]"
    unfolding eq processImageAlternative_trace by simp
  show "fst (imageToTensor p uri w) =
        (case readAsStringAsync p uri of
           Inl e \<Rightarrow> Inl (AllMethodsFailed (ReadFailed e))
         | Inr b0 \<Rightarrow>
             (case atob p b0 of
                Inl e \<Rightarrow> Inl (AllMethodsFailed e)
              | Inr bytes0 \<Rightarrow>
                  (case decodeJpeg p bytes0 of
                     Inl e \<Rightarrow> Inl (AllMethodsFailed e)
                   | Inr (sh0, d0) \<Rightarrow>
                       (case fst (normalizeAlternative p sh0 d0 (emit ReadAsStringAsync ?w)) of
                          Inl e \<Rightarrow> Inl (AllMethodsFailed e)
                        | Inr t \<Rightarrow> Inr t))))"
    unfolding eq by (rule processImageAlternative_fst)
  show "\<forall>e. readAsStringAsync p uri = Inl e \<longrightarrow>
           fst (imageToTensor p uri w) = Inl (AllMethodsFailed (ReadFailed e)) \<and>
           live (snd (imageToTensor p uri w)) = live w"
    unfolding eq by (simp add: processImageAlternative_missing)
  {
    assume d: "readAsStringAsync p uri = Inr b \<and> atob p b = Inr bytes \<and>
       decodeJpeg p bytes = Inr (sh, d)"
    then have "readAsStringAsync p uri = Inr b" "atob p b = Inr bytes"
      "decodeJpeg p bytes = Inr (sh, d)" by simp_all
    from processImageAlternative_result[OF this, of ?w]
    show "if length sh = 3 \<and> sh ! 2 = 3
          then \<exists>t. fst (imageToTensor p uri w) = Inr t \<and> tshape t = [1, 224, 224, 3] \<and>
                   tdata t = map (\<lambda>v. v / 255)
                               (if sh = [224, 224, 3] then d else resizeBilinearData p sh d)
          else \<exists>e. fst (imageToTensor p uri w) = Inl (AllMethodsFailed e) \<and>
                   ((\<exists>s. e = InvalidTensorShape s \<and> length s = length sh \<and> last s = last sh) \<or>
                    (length sh \<noteq> 3 \<and> length sh \<noteq> 4 \<and>
                     e = LibraryError ''Error in resizeBilinear: x must be rank 3 or 4''))"
      unfolding eq .
  }
next
  assume h: "uri \<noteq> [] \<and> \<not> trimIsEmpty uri \<and> \<not> includes_str uri ''files/crop_image_'' \<and>
    \<not> includes_str uri ''files/gallery_image_'' \<and>
    k < 3 \<and> (\<forall>n<k. \<exists>e. manipulateAsync p uri n = Inl e) \<and>
    manipulateAsync p uri k = Inr r"
  define w' where "w' = (if includes_str uri ''Camera/'' then emit (Sleep 100) w else w)"
  have tw': "trace w' = trace w @ (if includes_str uri ''Camera/'' then [Sleep 100] else [])"
    and lw': "live w' = live w"
    by (simp_all add: w'_def emit_def)
  from h have k: "k < 3" and f: "\<forall>n<k. \<exists>e. manipulateAsync p uri n = Inl e"
    and r: "manipulateAsync p uri k = Inr r" by simp_all
  from retryLoop_success[OF k f r, of w']
  obtain evs where evs: "retryLoop p uri 0 w' = (Resized r, w'\<lparr>trace := trace w' @ evs\<rparr>)"
    "ReadAsStringAsync \<notin> set evs" "length (filter (\<lambda>e. e = ManipulateAsync) evs) = k + 1"
    by blast
  from h have u: "uri \<noteq> []" "\<not> trimIsEmpty uri" "\<not> includes_str uri ''files/crop_image_''"
    "\<not> includes_str uri ''files/gallery_image_''" by simp_all
  note res = imageToTensor_resized[OF u evs(1)[unfolded w'_def]]
  from res have t: "trace (snd (imageToTensor p uri w)) =
      trace w @ (if includes_str uri ''Camera/'' then [Sleep 100] else []) @ evs"
    by (simp add: w'_def[symmetric] tw')
  show "\<exists>evs. trace (snd (imageToTensor p uri w)) =
                trace w @ (if includes_str uri ''Camera/'' then [Sleep 100] else []) @ evs \<and>
             ReadAsStringAsync \<notin> set evs \<and>
             length (filter (\<lambda>e. e = ManipulateAsync) evs) = k + 1"
    using t evs(2,3) by blast
  {
    assume "r = None \<or> r = Some []"
    with res have "imageToTensor p uri w = (Inl NoBase64, w'\<lparr>trace := trace w' @ evs\<rparr>)"
      by (simp add: w'_def[symmetric])
    then show "fst (imageToTensor p uri w) = Inl NoBase64"
      and "live (snd (imageToTensor p uri w)) = live w"
      by (simp_all add: lw')
  }
next
  show "\<exists>evs. trace (snd (imageToTensor p uri w)) = trace w @ evs \<and>
          length (filter (\<lambda>e. e = ManipulateAsync) evs) \<le> 3 \<and>
          length (filter (\<lambda>e. e = ReadAsStringAsync) evs) \<le> 1"
    by (rule imageToTensor_trace_bound)
qed

theorem imageToTensor_retry_fallback_witness:
  "manipulateAsync missingFilePlatform ''file:///photo.jpg'' 0
     = Inl (LibraryError ''File does not exist'') \<and>
   manipulateAsync missingFilePlatform ''file:///photo.jpg'' 1
     = Inl (LibraryError ''File does not exist'') \<and>
   manipulateAsync missingFilePlatform ''file:///photo.jpg'' 2
     = Inl (LibraryError ''File does not exist'') \<and>
   readAsStringAsync missingFilePlatform ''file:///photo.jpg''
     = Inl (LibraryError ''File does not exist'') \<and>
   fst (imageToTensor missingFilePlatform ''file:///photo.jpg'' world0)
     = Inl (AllMethodsFailed (ReadFailed (LibraryError ''File does not exist''))) \<and>
   trace (snd (imageToTensor missingFilePlatform ''file:///photo.jpg'' world0))
     = [ManipulateAsync, Sleep 200, ManipulateAsync, Sleep 400, ManipulateAsync,
        ReadAsStringAsync] \<and>
   live (snd (imageToTensor missingFilePlatform ''file:///photo.jpg'' world0)) = [] \<and>
   (\<exists>t. fst (imageToTensor twoPixelPlatform ''photo.jpg'' world0) = Inr t \<and>
        tshape t = [1, 224, 224, 3] \<and> tdata t = twoPixelResult) \<and>
   (\<exists>t. fst (imageToTensor directReadPlatform ''photo.jpg'' world0) = Inr t \<and>
        tshape t = [1, 224, 224, 3] \<and> tdata t = map (\<lambda>v. v / 255) (replicate 150528 0)) \<and>
   manipulateAsync noBase64Platform ''photo.jpg'' 0 = Inr None \<and>
   fst (imageToTensor noBase64Platform ''photo.jpg'' world0) = Inl NoBase64 \<and>
   (\<exists>evs. trace (snd (imageToTensor noBase64Platform ''photo.jpg'' world0)) = evs \<and>
          ReadAsStringAsync \<notin> set evs \<and>
          length (filter (\<lambda>e. e = ManipulateAsync) evs) = 1) \<and>
   (\<exists>evs. trace (snd (imageToTensor flakyPlatform ''photo.jpg'' world0)) = evs \<and>
          ReadAsStringAsync \<notin> set evs \<and>
          length (filter (\<lambda>e. e = ManipulateAsync) evs) = 2)"
proof -
  have w: "trace world0 = []" "live world0 = []" by (simp_all add: world0_def)
  have um: "''file:///photo.jpg'' \<noteq> [] \<and> \<not> trimIsEmpty ''file:///photo.jpg'' \<and>
      \<not> includes_str ''file:///photo.jpg'' ''files/crop_image_'' \<and>
      \<not> includes_str ''file:///photo.jpg'' ''files/gallery_image_''"
    and cm: "\<not> includes_str ''file:///photo.jpg'' ''Camera/''"
    by (simp_all add: trimIsEmpty_def isSpace_def)
  have u: "''photo.jpg'' \<noteq> [] \<and> \<not> trimIsEmpty ''photo.jpg'' \<and>
      \<not> includes_str ''photo.jpg'' ''files/crop_image_'' \<and>
      \<not> includes_str ''photo.jpg'' ''files/gallery_image_''"
    and c: "\<not> includes_str ''photo.jpg'' ''Camera/''"
    by (simp_all add: trimIsEmpty_def isSpace_def)
  have mm: "manipulateAsync missingFilePlatform ''file:///photo.jpg'' n
             = Inl (LibraryError ''File does not exist'')" for n
    by (simp add: missingFilePlatform_def)
  have mr: "readAsStringAsync missingFilePlatform ''file:///photo.jpg''
     = Inl (LibraryError ''File does not exist'')"
    by (simp add: missingFilePlatform_def)
  have tm: "manipulateAsync twoPixelPlatform ''photo.jpg'' n = Inl (LibraryError ''Could not resize'')"
    for n by (simp add: twoPixelPlatform_def)
  have dm: "manipulateAsync directReadPlatform ''photo.jpg'' n
              = Inl (LibraryError ''Could not resize'')" for n
    by (simp add: directReadPlatform_def)
  have df: "readAsStringAsync directReadPlatform ''photo.jpg'' = Inr ''/9j/4AAQ''"
    "atob directReadPlatform ''/9j/4AAQ'' = Inr [255, 216, 255, 224]"
    "decodeJpeg directReadPlatform [255, 216, 255, 224] = Inr ([224, 224, 3], replicate 150528 0)"
    by (simp_all add: directReadPlatform_def)
  have nm: "manipulateAsync noBase64Platform ''photo.jpg'' 0 = Inr None"
    by (simp add: noBase64Platform_def)
  have fm: "manipulateAsync flakyPlatform ''photo.jpg'' 0 = Inl (LibraryError ''File is not ready'')"
    "manipulateAsync flakyPlatform ''photo.jpg'' 1 = Inr (Some ''/9j/4AAQ'')"
    by (simp_all add: flakyPlatform_def)

  have hm: "''file:///photo.jpg'' \<noteq> [] \<and> \<not> trimIsEmpty ''file:///photo.jpg'' \<and>
      \<not> includes_str ''file:///photo.jpg'' ''files/crop_image_'' \<and>
      \<not> includes_str ''file:///photo.jpg'' ''files/gallery_image_'' \<and>
      (\<forall>n<3. \<exists>e. manipulateAsync missingFilePlatform ''file:///photo.jpg'' n = Inl e)"
    using um mm by blast
  note t1 = imageToTensor_retry_fallback[where uri = "''file:///photo.jpg''"
      and p = missingFilePlatform and w = world0 and b = "[]" and bytes = "[]" and sh = "[]"
      and d = "[]" and k = 0 and r = None]
  note x1 = t1[THEN conjunct1, THEN mp, OF hm]
  from x1[THEN conjunct1] cm w
  have a1: "trace (snd (imageToTensor missingFilePlatform ''file:///photo.jpg'' world0))
     = [ManipulateAsync, Sleep 200, ManipulateAsync, Sleep 400, ManipulateAsync,
        ReadAsStringAsync]"
    by simp
  from x1[THEN conjunct2, THEN conjunct2, THEN conjunct1] mr w
  have a2: "fst (imageToTensor missingFilePlatform ''file:///photo.jpg'' world0)
     = Inl (AllMethodsFailed (ReadFailed (LibraryError ''File does not exist''))) \<and>
     live (snd (imageToTensor missingFilePlatform ''file:///photo.jpg'' world0)) = []"
    by simp

  have ht: "''photo.jpg'' \<noteq> [] \<and> \<not> trimIsEmpty ''photo.jpg'' \<and>
      \<not> includes_str ''photo.jpg'' ''files/crop_image_'' \<and>
      \<not> includes_str ''photo.jpg'' ''files/gallery_image_'' \<and>
      (\<forall>n<3. \<exists>e. manipulateAsync twoPixelPlatform ''photo.jpg'' n = Inl e)"
    using u tm by blast
  note t2 = imageToTensor_retry_fallback[where uri = "''photo.jpg''"
      and p = twoPixelPlatform and w = world0 and b = "''/9j/4AAQ''"
      and bytes = "[255, 216, 255, 224]" and sh = "[1, 2, 3]" and d = "[0, 0, 0, 255, 255, 255]"
      and k = 0 and r = None]
  note x2 = t2[THEN conjunct1, THEN mp, OF ht]
  from x2[THEN conjunct2, THEN conjunct2, THEN conjunct2] twoPixel_fields
  have b1: "\<exists>t. fst (imageToTensor twoPixelPlatform ''photo.jpg'' world0) = Inr t \<and>
        tshape t = [1, 224, 224, 3] \<and> tdata t = twoPixelResult"
    by (simp add: twoPixel_scaled)

  have hd: "''photo.jpg'' \<noteq> [] \<and> \<not> trimIsEmpty ''photo.jpg'' \<and>
      \<not> includes_str ''photo.jpg'' ''files/crop_image_'' \<and>
      \<not> includes_str ''photo.jpg'' ''files/gallery_image_'' \<and>
      (\<forall>n<3. \<exists>e. manipulateAsync directReadPlatform ''photo.jpg'' n = Inl e)"
    using u dm by blast
  note t3 = imageToTensor_retry_fallback[where uri = "''photo.jpg''"
      and p = directReadPlatform and w = world0 and b = "''/9j/4AAQ''"
      and bytes = "[255, 216, 255, 224]" and sh = "[224, 224, 3]" and d = "replicate 150528 0"
      and k = 0 and r = None]
  note x3 = t3[THEN conjunct1, THEN mp, OF hd]
  from x3[THEN conjunct2, THEN conjunct2, THEN conjunct2] df
  have c1: "\<exists>t. fst (imageToTensor directReadPlatform ''photo.jpg'' world0) = Inr t \<and>
        tshape t = [1, 224, 224, 3] \<and> tdata t = map (\<lambda>v. v / 255) (replicate 150528 0)"
    by simp

  have hn: "''photo.jpg'' \<noteq> [] \<and> \<not> trimIsEmpty ''photo.jpg'' \<and>
      \<not> includes_str ''photo.jpg'' ''files/crop_image_'' \<and>
      \<not> includes_str ''photo.jpg'' ''files/gallery_image_'' \<and>
      (0::nat) < 3 \<and> (\<forall>n<0. \<exists>e. manipulateAsync noBase64Platform ''photo.jpg'' n = Inl e) \<and>
      manipulateAsync noBase64Platform ''photo.jpg'' 0 = Inr None"
    using u nm by simp
  note t4 = imageToTensor_retry_fallback[where uri = "''photo.jpg''"
      and p = noBase64Platform and w = world0 and b = "[]" and bytes = "[]" and sh = "[]"
      and d = "[]" and k = 0 and r = None]
  note x4 = t4[THEN conjunct2, THEN conjunct1, THEN mp, OF hn]
  from x4[THEN conjunct1] c w
  have d1: "\<exists>evs. trace (snd (imageToTensor noBase64Platform ''photo.jpg'' world0)) = evs \<and>
          ReadAsStringAsync \<notin> set evs \<and>
          length (filter (\<lambda>e. e = ManipulateAsync) evs) = 1"
    by simp
  from x4[THEN conjunct2]
  have d2: "fst (imageToTensor noBase64Platform ''photo.jpg'' world0) = Inl NoBase64"
    by simp

  have hf: "''photo.jpg'' \<noteq> [] \<and> \<not> trimIsEmpty ''photo.jpg'' \<and>
      \<not> includes_str ''photo.jpg'' ''files/crop_image_'' \<and>
      \<not> includes_str ''photo.jpg'' ''files/gallery_image_'' \<and>
      (1::nat) < 3 \<and> (\<forall>n<1. \<exists>e. manipulateAsync flakyPlatform ''photo.jpg'' n = Inl e) \<and>
      manipulateAsync flakyPlatform ''photo.jpg'' 1 = Inr (Some ''/9j/4AAQ'')"
    using u fm by simp
  note t5 = imageToTensor_retry_fallback[where uri = "''photo.jpg''"
      and p = flakyPlatform and w = world0 and b = "[]" and bytes = "[]" and sh = "[]"
      and d = "[]" and k = 1 and r = "Some ''/9j/4AAQ''"]
  note x5 = t5[THEN conjunct2, THEN conjunct1, THEN mp, OF hf]
  from x5[THEN conjunct1] c w
  have e1: "\<exists>evs. trace (snd (imageToTensor flakyPlatform ''photo.jpg'' world0)) = evs \<and>
          ReadAsStringAsync \<notin> set evs \<and>
          length (filter (\<lambda>e. e = ManipulateAsync) evs) = 2"
    by simp
  from mm[of 0] mm[of 1] mm[of 2] mr a1 a2 b1 c1 nm d1 d2 e1 show ?thesis by blast
qed

text \<open>
  C7 as stated fails when the resize and encode step returns an image without
  \<open>base64\<close>: there is one attempt, no retry and no direct read, although the file can be
  read, and the call ends with \<open>NoBase64\<close>.
\<close>

theorem no_base64_no_fallback:
  "manipulateAsync noBase64Platform ''photo.jpg'' 0 = Inr None \<and>
   readAsStringAsync noBase64Platform ''photo.jpg'' = Inr ''/9j/4AAQ'' \<and>
   imageToTensor noBase64Platform ''photo.jpg'' world0
     = (Inl NoBase64, \<lparr>nextId = 0, live = [], trace = [ManipulateAsync]\<rparr>)"
proof -
  have nm: "manipulateAsync noBase64Platform ''photo.jpg'' 0 = Inr None"
    and nr: "readAsStringAsync noBase64Platform ''photo.jpg'' = Inr ''/9j/4AAQ''"
    by (simp_all add: noBase64Platform_def)
  have "imageToTensor noBase64Platform ''photo.jpg'' world0
     = (Inl NoBase64, \<lparr>nextId = 0, live = [], trace = [ManipulateAsync]\<rparr>)"
    by (simp add: imageToTensor_def trimIsEmpty_def isSpace_def retryLoop_first[OF nm]
        emit_def world0_def)
  with nm nr show ?thesis by simp
qed


section \<open>Model loader: readiness\<close>

lemma validateModel_iff:
  "validateModel m \<longleftrightarrow>
     (\<exists>i is. inputs m = Some (i # is)) \<and>
     (\<exists>out outs. outputs m = Some (out # outs) \<and> shape out \<noteq> Some [])"
  by (auto simp: validateModel_def split: option.splits list.splits)

text \<open>
  C9. When the runtime is ready, the model files load and the model passes
  \<open>validateModel\<close>, \<open>load\<close> ends with the model exposed, \<open>ready\<close> true, no error and the
  progress \<open>Ready\<close>, whatever the smoke test returns or throws. \<open>ready\<close> is true in no
  other case: a step that throws before the validation, or a model that fails it (no
  input, no output, or an output of declared shape \<open>[]\<close>), leaves \<open>ready\<close> false with an
  error message and the progress \<open>Failed\<close>.
\<close>

theorem load_readiness:
  "(tfReady env = None \<and> requireAssets env = None \<and> loadGraphModel env = Inr m \<and>
    validateModel m \<longrightarrow>
      fst (load env st w) =
        st\<lparr>model := Some m, ready := True, error := None, loadingProgress := ''Ready''\<rparr> \<and>
      snd (load env st w) = snd (testModelPrediction (randomNormal env) m w)) \<and>
   (ready (fst (load env st w)) \<longleftrightarrow>
      tfReady env = None \<and> requireAssets env = None \<and>
      (\<exists>m. loadGraphModel env = Inr m \<and> validateModel m)) \<and>
   (\<not> ready (fst (load env st w)) \<longrightarrow>
      error (fst (load env st w)) \<noteq> None \<and> model (fst (load env st w)) = model st \<and>
      loadingProgress (fst (load env st w)) = ''Failed'') \<and>
   (validateModel m \<longleftrightarrow>
      (\<exists>i is. inputs m = Some (i # is)) \<and>
      (\<exists>out outs. outputs m = Some (out # outs) \<and> shape out \<noteq> Some []))"
proof -
  have a: "tfReady env = None \<and> requireAssets env = None \<and> loadGraphModel env = Inr m \<and>
    validateModel m \<longrightarrow>
      fst (load env st w) =
        st\<lparr>model := Some m, ready := True, error := None, loadingProgress := ''Ready''\<rparr> \<and>
      snd (load env st w) = snd (testModelPrediction (randomNormal env) m w)"
    by (simp add: load_def split: prod.splits)
  have b: "ready (fst (load env st w)) \<longleftrightarrow>
      tfReady env = None \<and> requireAssets env = None \<and>
      (\<exists>m. loadGraphModel env = Inr m \<and> validateModel m)"
    by (auto simp: load_def loadFailed_def split: option.splits sum.splits prod.splits)
  have c: "\<not> ready (fst (load env st w)) \<longrightarrow>
      error (fst (load env st w)) \<noteq> None \<and> model (fst (load env st w)) = model st \<and>
      loadingProgress (fst (load env st w)) = ''Failed''"
    by (auto simp: load_def loadFailed_def split: option.splits sum.splits prod.splits)
  from a b c validateModel_iff[of m] show ?thesis by blast
qed

theorem load_readiness_witness:
  "fst (testModelPrediction (replicate 150528 0) (constantModel [1, 5] (take 5 scores30)) world0)
     = False \<and>
   fst (load (loaderEnvOf (Inr (constantModel [1, 5] (take 5 scores30)))) initialState world0)
     = initialState\<lparr>model := Some (constantModel [1, 5] (take 5 scores30)), ready := True,
                     error := None, loadingProgress := ''Ready''\<rparr> \<and>
   fst (testModelPrediction (replicate 150528 0) throwingModel world0) = True \<and>
   ready (fst (load (loaderEnvOf (Inr throwingModel)) initialState world0)) \<and>
   \<not> ready (fst (load (loaderEnvOf (Inl (ErrorObject ''Failed to fetch weights'')))
                   initialState world0)) \<and>
   error (fst (load (loaderEnvOf (Inl (ErrorObject ''Failed to fetch weights'')))
                 initialState world0)) = Some ''Failed to fetch weights'' \<and>
   \<not> validateModel noOutputsModel \<and>
   \<not> ready (fst (load (loaderEnvOf (Inr noOutputsModel)) initialState world0)) \<and>
   error (fst (load (loaderEnvOf (Inr noOutputsModel)) initialState world0))
     = Some ''Model validation failed''"
proof -
  let ?m5 = "constantModel [1, 5] (take 5 scores30)"
  have v: "validateModel ?m5" "validateModel throwingModel" "\<not> validateModel noOutputsModel"
    by (simp_all add: validateModel_def constantModel_def throwingModel_def noOutputsModel_def)
  have e: "tfReady (loaderEnvOf r) = None" "requireAssets (loaderEnvOf r) = None"
    "loadGraphModel (loaderEnvOf r) = r" "randomNormal (loaderEnvOf r) = replicate 150528 0" for r
    by (simp_all add: loaderEnvOf_def)
  have t5: "testModelPrediction (replicate 150528 0) ?m5 world0
      = (False, \<lparr>nextId = 2, live = [], trace = []\<rparr>)"
    by (simp add: testModelPrediction_def constantModel_def alloc_def dispose_def world0_def
        scores30_def)
  have tt: "testModelPrediction (replicate 150528 0) throwingModel world0
      = (True, \<lparr>nextId = 1, live = [0], trace = []\<rparr>)"
    by (simp add: testModelPrediction_def throwingModel_def alloc_def world0_def)
  note l5 = load_readiness[where env = "loaderEnvOf (Inr ?m5)" and m = ?m5 and st = initialState
      and w = world0]
  note lt = load_readiness[where env = "loaderEnvOf (Inr throwingModel)" and m = throwingModel
      and st = initialState and w = world0]
  note lf = load_readiness[where env = "loaderEnvOf (Inl (ErrorObject ''Failed to fetch weights''))"
      and m = noOutputsModel and st = initialState and w = world0]
  note ln = load_readiness[where env = "loaderEnvOf (Inr noOutputsModel)" and m = noOutputsModel
      and st = initialState and w = world0]
  have a: "fst (load (loaderEnvOf (Inr ?m5)) initialState world0)
     = initialState\<lparr>model := Some ?m5, ready := True, error := None, loadingProgress := ''Ready''\<rparr>"
    using l5[THEN conjunct1] v e t5 by simp
  have b: "ready (fst (load (loaderEnvOf (Inr throwingModel)) initialState world0))"
    using lt[THEN conjunct2, THEN conjunct1] v e by simp
  have c: "\<not> ready (fst (load (loaderEnvOf (Inl (ErrorObject ''Failed to fetch weights'')))
                   initialState world0))"
    using lf[THEN conjunct2, THEN conjunct1] e by simp
  have d: "\<not> ready (fst (load (loaderEnvOf (Inr noOutputsModel)) initialState world0))"
    using ln[THEN conjunct2, THEN conjunct1] v e by simp
  have c': "error (fst (load (loaderEnvOf (Inl (ErrorObject ''Failed to fetch weights'')))
                 initialState world0)) = Some ''Failed to fetch weights''"
    by (simp add: load_def loadFailed_def e)
  have d': "error (fst (load (loaderEnvOf (Inr noOutputsModel)) initialState world0))
     = Some ''Model validation failed''"
    by (simp add: load_def loadFailed_def e v)
  from a b c d c' d' v t5 tt show ?thesis by simp
qed

end
